theory Spec2Isabelle
  imports Complex_Main "HOL-Library.Log_Nat"
begin

section \<open>JavaScript values as the server sees them\<close>

text \<open>
  The server (server.js) receives request bodies and model output as parsed JSON. A
  value is modelled by what the code can observe of it. A Number is carried as its
  canonical rendering (the result of Number::toString, for example \<open>''0''\<close>,
  \<open>''999''\<close>, \<open>''2.5''\<close>, \<open>''1e+21''\<close>): the code only tests numbers of a body for
  truthiness and converts them to text. Strings are lists of code units below 256.
  \<open>JNative\<close> stands for a function or object of the runtime that a property read reaches
  through \<open>Object.prototype\<close>; it carries the property name.
\<close>

datatype js_error = TypeError

datatype jsv =
    JUndefined
  | JNull
  | JBool bool
  | JNum string
  | JStr string
  | JArr "jsv list"
  | JObj "(string \<times> jsv) list"
  | JNative string

text \<open>ToBoolean: \<open>undefined\<close>, \<open>null\<close>, \<open>false\<close>, \<open>0\<close>, \<open>NaN\<close> and \<open>""\<close> are falsy.\<close>

fun truthy :: "jsv \<Rightarrow> bool" where
  "truthy JUndefined = False"
| "truthy JNull = False"
| "truthy (JBool b) = b"
| "truthy (JNum s) = (s \<noteq> ''0'' \<and> s \<noteq> ''NaN'')"
| "truthy (JStr s) = (s \<noteq> [])"
| "truthy (JArr xs) = True"
| "truthy (JObj kvs) = True"
| "truthy (JNative n) = True"

text \<open>
  Reading a property whose name no prototype defines (\<open>question\<close>, \<open>options\<close>,
  \<open>id\<close>, \<open>correctOption\<close>, \<open>explanation\<close>, \<open>topic\<close>, \<open>count\<close>,
  \<open>difficulty\<close>, \<open>text\<close>) from a value that is not \<open>undefined\<close> or \<open>null\<close>:
  an object gives its own property, everything else gives \<open>undefined\<close>.
\<close>

fun get :: "jsv \<Rightarrow> string \<Rightarrow> jsv" where
  "get (JObj kvs) k = (case map_of kvs k of None \<Rightarrow> JUndefined | Some v \<Rightarrow> v)"
| "get _ k = JUndefined"

text \<open>\<open>Array.prototype.join\<close> with the default separator, on the elements' texts.\<close>

fun join :: "string list \<Rightarrow> string" where
  "join [] = []"
| "join [s] = s"
| "join (s # t # ss) = s @ '','' @ join (t # ss)"

text \<open>
  ToString, which \<open>String(v)\<close>, template literals and \<open>parseInt\<close> apply. An array is
  joined, with \<open>undefined\<close> and \<open>null\<close> elements rendered empty. A parsed object
  inherits \<open>Object.prototype.toString\<close> unless it has an own property \<open>toString\<close>;
  an own property from JSON is never callable, \<open>valueOf\<close> then returns the object
  itself (or is not callable either), and the conversion throws a TypeError. The
  conversion of an array recurses into its elements; the model covers the values whose
  nesting the runtime's stack holds (beyond it the runtime throws a RangeError).
\<close>

fun ToString :: "jsv \<Rightarrow> js_error + string"
  and ToStrings :: "jsv list \<Rightarrow> js_error + string list" where
  "ToString JUndefined = Inr ''undefined''"
| "ToString JNull = Inr ''null''"
| "ToString (JBool b) = Inr (if b then ''true'' else ''false'')"
| "ToString (JNum s) = Inr s"
| "ToString (JStr s) = Inr s"
| "ToString (JArr xs) = (case ToStrings xs of Inl e \<Rightarrow> Inl e | Inr ss \<Rightarrow> Inr (join ss))"
| "ToString (JObj kvs) =
     (if ''toString'' \<in> fst ` set kvs then Inl TypeError else Inr ''[object Object]'')"
| "ToString (JNative n) =
     (if n = ''__proto__'' then Inr ''[object Object]''
      else Inr (''function '' @ (if n = ''constructor'' then ''Object'' else n)
                  @ ''() { [native code] }''))"
| "ToStrings [] = Inr []"
| "ToStrings (x # xs) =
     (case (case x of JUndefined \<Rightarrow> Inr [] | JNull \<Rightarrow> Inr [] | _ \<Rightarrow> ToString x) of
        Inl e \<Rightarrow> Inl e
      | Inr s \<Rightarrow> (case ToStrings xs of Inl e \<Rightarrow> Inl e | Inr ss \<Rightarrow> Inr (s # ss)))"

text \<open>\<open>xs.map(String)\<close>: every element converted, the first failure thrown.\<close>

fun map_String :: "jsv list \<Rightarrow> js_error + string list" where
  "map_String [] = Inr []"
| "map_String (x # xs) =
     (case ToString x of
        Inl e \<Rightarrow> Inl e
      | Inr s \<Rightarrow> (case map_String xs of Inl e \<Rightarrow> Inl e | Inr ss \<Rightarrow> Inr (s # ss)))"

subsection \<open>Strings\<close>

text \<open>White space as \<open>trim\<close> and \<open>parseInt\<close> strip it: TAB, LF, VT, FF, CR, SP, NBSP.\<close>

definition StrWhiteSpaceChar :: "char \<Rightarrow> bool" where
  "StrWhiteSpaceChar c \<longleftrightarrow> of_char c \<in> {9, 10, 11, 12, 13, 32, 160 :: nat}"

definition trim :: "string \<Rightarrow> string" where
  "trim s = rev (dropWhile StrWhiteSpaceChar (rev (dropWhile StrWhiteSpaceChar s)))"

text \<open>\<open>toLowerCase\<close> and \<open>toUpperCase\<close> on one code unit.\<close>

definition lower_char :: "char \<Rightarrow> char" where
  "lower_char c =
     (let n = (of_char c :: nat)
      in if (65 \<le> n \<and> n \<le> 90) \<or> (192 \<le> n \<and> n \<le> 222 \<and> n \<noteq> 215)
         then char_of (n + 32) else c)"

definition toLowerCase :: "string \<Rightarrow> string" where
  "toLowerCase s = map lower_char s"

text \<open>
  \<open>toUpperCase\<close> is applied to the three difficulty levels only, which are ASCII;
  on ASCII it moves \<open>a\<close>..\<open>z\<close> to \<open>A\<close>..\<open>Z\<close>.
\<close>

definition upper_char :: "char \<Rightarrow> char" where
  "upper_char c =
     (let n = (of_char c :: nat)
      in if 97 \<le> n \<and> n \<le> 122 then char_of (n - 32) else c)"

definition toUpperCase :: "string \<Rightarrow> string" where
  "toUpperCase s = map upper_char s"

text \<open>Decimal rendering of a natural number, as a template literal renders an index.\<close>

fun show_nat :: "nat \<Rightarrow> string" where
  "show_nat n =
     (if n < 10 then [char_of (48 + n)]
      else show_nat (n div 10) @ [char_of (48 + n mod 10)])"

definition show_int :: "int \<Rightarrow> string" where
  "show_int i = (if i < 0 then CHR ''-'' # show_nat (nat (- i)) else show_nat (nat i))"

subsection \<open>parseInt\<close>

text \<open>The value of a digit in radix up to 36.\<close>

definition digit_value :: "char \<Rightarrow> nat option" where
  "digit_value c =
     (let n = (of_char c :: nat)
      in if 48 \<le> n \<and> n \<le> 57 then Some (n - 48)
         else if 97 \<le> n \<and> n \<le> 122 then Some (n - 87)
         else if 65 \<le> n \<and> n \<le> 90 then Some (n - 55)
         else None)"

definition is_digit :: "nat \<Rightarrow> char \<Rightarrow> bool" where
  "is_digit R c = (case digit_value c of None \<Rightarrow> False | Some d \<Rightarrow> d < R)"

definition digits_value :: "nat \<Rightarrow> string \<Rightarrow> nat" where
  "digits_value R Z = foldl (\<lambda>a c. a * R + the (digit_value c)) 0 Z"

text \<open>
  \<open>parseInt(s)\<close> with no radix, on the text of its argument: leading white space is
  skipped, a sign is read, a prefix \<open>0x\<close> or \<open>0X\<close> selects radix 16, and the longest
  run of digits is the value; no digit gives NaN, here \<open>None\<close>. The result is the
  mathematical integer; the Number the runtime returns is this integer rounded to a
  double, which is zero, below 1 or above 15 exactly when the integer is.
\<close>

definition parseInt_string :: "string \<Rightarrow> int option" where
  "parseInt_string inputString =
     (let S = dropWhile StrWhiteSpaceChar inputString;
          sign = (if take 1 S = ''-'' then - 1 else 1 :: int);
          S1 = (if take 1 S = ''+'' \<or> take 1 S = ''-'' then drop 1 S else S);
          R = (if take 2 S1 = ''0x'' \<or> take 2 S1 = ''0X'' then 16 else 10 :: nat);
          S2 = (if take 2 S1 = ''0x'' \<or> take 2 S1 = ''0X'' then drop 2 S1 else S1);
          Z = takeWhile (is_digit R) S2
      in if Z = [] then None else Some (sign * int (digits_value R Z)))"

definition parseInt :: "jsv \<Rightarrow> js_error + int option" where
  "parseInt v = (case ToString v of Inl e \<Rightarrow> Inl e | Inr s \<Rightarrow> Inr (parseInt_string s))"

section \<open>Input sanitizer of /api/generate-quiz\<close>

text \<open>
  \<open>Math.min(Math.max(parseInt(count) || 5, 1), 15)\<close>: NaN and 0 are falsy and give 5.
\<close>

definition numQuestions :: "jsv \<Rightarrow> js_error + int" where
  "numQuestions count =
     (case parseInt count of
        Inl e \<Rightarrow> Inl e
      | Inr p \<Rightarrow>
          Inr (min (max (case p of None \<Rightarrow> 5 | Some n \<Rightarrow> if n = 0 then 5 else n) 1) 15))"

definition requestCount :: "int \<Rightarrow> int" where
  "requestCount n = min (n + 3) 20"

definition default_topic :: string where
  "default_topic = ''AZ-900 (Microsoft Azure Fundamentals)''"

text \<open>
  \<open>v.slice(0, 80)\<close>: strings and arrays have the method; on any other value the
  property is undefined (or, as an own property from JSON, not callable) and the call
  throws.
\<close>

fun slice_0_80 :: "jsv \<Rightarrow> js_error + jsv" where
  "slice_0_80 (JStr s) = Inr (JStr (take 80 s))"
| "slice_0_80 (JArr xs) = Inr (JArr (take 80 xs))"
| "slice_0_80 _ = Inl TypeError"

definition safeTopic :: "jsv \<Rightarrow> js_error + jsv" where
  "safeTopic topic = slice_0_80 (if truthy topic then topic else JStr default_topic)"

text \<open>
  \<open>difficultyMap[k]\<close>: the three own properties, then the properties every object
  inherits from \<open>Object.prototype\<close>, else \<open>undefined\<close>.
\<close>

definition Object_prototype_names :: "string list" where
  "Object_prototype_names =
     [''constructor'', ''__defineGetter__'', ''__defineSetter__'', ''hasOwnProperty'',
      ''__lookupGetter__'', ''__lookupSetter__'', ''isPrototypeOf'',
      ''propertyIsEnumerable'', ''toString'', ''valueOf'', ''__proto__'',
      ''toLocaleString'']"

definition difficultyMap :: "string \<Rightarrow> jsv" where
  "difficultyMap k =
     (if k = ''beginner'' then JStr ''beginner''
      else if k = ''intermediate'' then JStr ''intermediate''
      else if k = ''expert'' then JStr ''expert''
      else if k \<in> set Object_prototype_names then JNative k
      else JUndefined)"

text \<open>\<open>difficultyMap[(difficulty || "").toLowerCase()] || "beginner"\<close>.\<close>

definition safeDifficulty :: "jsv \<Rightarrow> js_error + jsv" where
  "safeDifficulty difficulty =
     (case (if truthy difficulty then difficulty else JStr []) of
        JStr s \<Rightarrow>
          (let d = difficultyMap (toLowerCase s)
           in Inr (if truthy d then d else JStr ''beginner''))
      | _ \<Rightarrow> Inl TypeError)"

text \<open>
  The three sanitized values of a quiz request, computed in the source's order. The
  sanitized request is again a request: the count is a Number, carried by its text.
\<close>

record quiz_request =
  topic :: jsv
  count :: jsv
  difficulty :: jsv

definition sanitize :: "quiz_request \<Rightarrow> js_error + quiz_request" where
  "sanitize r =
     (case numQuestions (count r) of
        Inl e \<Rightarrow> Inl e
      | Inr n \<Rightarrow>
     (case safeTopic (topic r) of
        Inl e \<Rightarrow> Inl e
      | Inr t \<Rightarrow>
     (case safeDifficulty (difficulty r) of
        Inl e \<Rightarrow> Inl e
      | Inr d \<Rightarrow> Inr \<lparr>topic = t, count = JNum (show_int n), difficulty = d\<rparr>)))"

section \<open>Quiz response validator\<close>

record gen_question =
  q_id :: jsv
  q_question :: string
  q_options :: "string list"
  q_correctOption :: string
  q_explanation :: string

text \<open>
  The filter: \<open>q && q.question && Array.isArray(q.options) && q.options.length === 4\<close>.
\<close>

definition keep :: "jsv \<Rightarrow> bool" where
  "keep q \<longleftrightarrow>
     truthy q \<and> truthy (get q ''question'') \<and>
     (case get q ''options'' of JArr os \<Rightarrow> length os = 4 | _ \<Rightarrow> False)"

text \<open>
  The body of the \<open>map\<close> callback, at index \<open>idx\<close> of the filtered list. The
  filter has passed, so \<open>q.options\<close> is an array.
\<close>

definition normalize :: "nat \<Rightarrow> jsv \<Rightarrow> js_error + gen_question" where
  "normalize idx q =
     (case ToString (get q ''question'') of
        Inl e \<Rightarrow> Inl e
      | Inr qu \<Rightarrow>
     (case (case get q ''options'' of JArr os \<Rightarrow> map_String os | _ \<Rightarrow> Inl TypeError) of
        Inl e \<Rightarrow> Inl e
      | Inr opts \<Rightarrow>
     (case (if truthy (get q ''explanation'') then ToString (get q ''explanation'')
            else Inr []) of
        Inl e \<Rightarrow> Inl e
      | Inr ex \<Rightarrow>
          Inr \<lparr>q_id = (if truthy (get q ''id'') then get q ''id''
                       else JStr (''q'' @ show_nat (idx + 1))),
               q_question = qu,
               q_options = opts,
               q_correctOption =
                 (if get q ''correctOption'' \<in> set [JStr ''A'', JStr ''B'', JStr ''C'', JStr ''D'']
                  then (case get q ''correctOption'' of JStr c \<Rightarrow> c | _ \<Rightarrow> ''A'')
                  else ''A''),
               q_explanation = ex\<rparr>)))"

text \<open>\<open>xs.map((q, idx) => ...)\<close>, from index \<open>idx\<close> on.\<close>

fun map_normalize :: "nat \<Rightarrow> jsv list \<Rightarrow> js_error + gen_question list" where
  "map_normalize idx [] = Inr []"
| "map_normalize idx (q # qs) =
     (case normalize idx q of
        Inl e \<Rightarrow> Inl e
      | Inr c \<Rightarrow> (case map_normalize (idx + 1) qs of Inl e \<Rightarrow> Inl e | Inr cs \<Rightarrow> Inr (c # cs)))"

text \<open>
  \<open>(questions || []).filter(...).map(...)\<close>: only an array has \<open>filter\<close>; a truthy
  value of another kind throws.
\<close>

definition cleaned :: "jsv \<Rightarrow> js_error + gen_question list" where
  "cleaned questions =
     (case (if truthy questions then questions else JArr []) of
        JArr qs \<Rightarrow> map_normalize 0 (filter keep qs)
      | _ \<Rightarrow> Inl TypeError)"

section \<open>Error classifier\<close>

text \<open>
  A failure is what a \<open>catch\<close> receives, seen through the three properties the
  classifier reads. \<open>None\<close> is an absent property (\<open>undefined\<close> or \<open>null\<close>).
  The status is an integral Number of magnitude below \<open>10^21\<close>, as HTTP-like codes
  are, which a template literal renders as its decimal numeral.
\<close>

record failure =
  err_status :: "int option"
  err_code :: "string option"
  err_message :: "string option"

definition missing_key_message :: string where
  "missing_key_message = ''Missing OPENAI_API_KEY in .env. Set it and restart the server.''"

definition network_codes :: "string list" where
  "network_codes = [''ENOTFOUND'', ''ECONNREFUSED'', ''ECONNRESET'', ''ETIMEDOUT'']"

text \<open>
  \<open>buildErrorDebugInfo(err)\<close>; the first argument is \<open>process.env.OPENAI_API_KEY\<close>,
  the second is \<open>None\<close> for a falsy \<open>err\<close>. A property is truthy when it is
  present and neither \<open>0\<close> nor \<open>""\<close>.
\<close>

definition buildErrorDebugInfo :: "string option \<Rightarrow> failure option \<Rightarrow> string" where
  "buildErrorDebugInfo key err =
     (let status = (case err of None \<Rightarrow> None | Some e \<Rightarrow> err_status e);
          code = (case err of None \<Rightarrow> None | Some e \<Rightarrow> err_code e);
          message = (case err of None \<Rightarrow> None | Some e \<Rightarrow> err_message e)
      in if key = None \<or> key = Some [] then missing_key_message
         else if status \<noteq> None \<and> status \<noteq> Some 0 then
           (let base = ''OpenAI API error (status '' @ show_int (the status) @ '').''
            in if the status = 401 then base @ '' Authentication failed. Check your API key.''
               else if the status = 429 then base @ '' Rate limit or quota exceeded.''
               else if the status \<ge> 500 then base @ '' OpenAI server side error, try again.''
               else base @ '' Check server logs for more details.'')
         else if code \<noteq> None \<and> code \<noteq> Some [] \<and> the code \<in> set network_codes then
           ''Network error ('' @ the code
             @ '') while contacting OpenAI. Check your internet connection or firewall.''
         else if message \<noteq> None \<and> message \<noteq> Some [] then
           ''Unexpected error: '' @ the message
         else ''Unknown error occurred while calling OpenAI.'')"

section \<open>Model invocation and the two request handlers\<close>

text \<open>
  A completion as the client library types it: each choice is seen through
  \<open>choice?.message?.content\<close> (\<open>None\<close> when the message or its content is absent or
  null), the usage record through its four optional token counts.
\<close>

record usage =
  prompt_tokens :: "nat option"
  input_tokens :: "nat option"
  completion_tokens :: "nat option"
  output_tokens :: "nat option"

record completion =
  choices :: "string option list"
  usage_of :: "usage option"

text \<open>
  A prompt is carried by the values interpolated into its template, in the template's
  order; the fixed text and the fixed system message of each pipeline are left out.
\<close>

datatype prompt =
    QuizPrompt string string string string
  | ExplainPrompt string string string

text \<open>
  What a handler takes from outside: the configured credential, \<open>JSON.parse\<close>
  (\<open>None\<close> for a SyntaxError), the model call (\<open>Inl\<close> the failure it throws), and
  the message text the runtime gives a TypeError.
\<close>

record env =
  OPENAI_API_KEY :: "string option"
  JSON_parse :: "string \<Rightarrow> jsv option"
  create :: "prompt \<Rightarrow> failure + completion"
  TypeError_message :: string

definition thrown :: "env \<Rightarrow> js_error \<Rightarrow> failure" where
  "thrown E e = \<lparr>err_status = None, err_code = None, err_message = Some (TypeError_message E)\<rparr>"

text \<open>
  Numbers of the response: a token count as read from the usage record, a computed
  double by its exact rational value.
\<close>

record usage_out =
  promptTokens :: nat
  completionTokens :: nat
  totalTokens :: rat
  estimatedCostUsd :: rat

datatype body =
    ErrorBody string "string option"
  | QuizBody jsv jsv "gen_question list" usage_out
  | ExplainBody jsv string

record response =
  res_status :: nat
  res_body :: body

text \<open>The catch-all of both handlers.\<close>

definition internal_error :: "env \<Rightarrow> js_error \<Rightarrow> response" where
  "internal_error E e =
     \<lparr>res_status = 500,
      res_body = ErrorBody ''Internal server error.''
                   (Some (buildErrorDebugInfo (OPENAI_API_KEY E) (Some (thrown E e))))\<rparr>"

text \<open>\<open>completion.choices[0]?.message?.content?.trim()\<close>, \<open>None\<close> when falsy.\<close>

definition content_trimmed :: "completion \<Rightarrow> string option" where
  "content_trimmed c =
     (case choices c of
        [] \<Rightarrow> None
      | ch # _ \<Rightarrow> (case ch of None \<Rightarrow> None
                  | Some s \<Rightarrow> if trim s = [] then None else Some (trim s)))"

section \<open>Cost estimator\<close>

text \<open>
  Arithmetic on Numbers is binary64 arithmetic: the exact result of each operation,
  rounded to the nearest double, ties to the even significand. A double is carried by
  its exact rational value; the model covers the range of normal doubles, which every
  value computed from a token count is in (or zero).
\<close>

text \<open>The exponent of a positive rational: \<open>2 powi e \<le> x < 2 powi (e + 1)\<close>.\<close>

definition ilog2 :: "rat \<Rightarrow> int" where
  "ilog2 x =
     (let e = bitlen (fst (quotient_of x)) - bitlen (snd (quotient_of x))
      in if 2 powi e \<le> x then e else e - 1)"

definition round_half_even :: "rat \<Rightarrow> int" where
  "round_half_even x =
     (if x - of_int \<lfloor>x\<rfloor> < 1 / 2 then \<lfloor>x\<rfloor>
      else if 1 / 2 < x - of_int \<lfloor>x\<rfloor> then \<lfloor>x\<rfloor> + 1
      else if even \<lfloor>x\<rfloor> then \<lfloor>x\<rfloor> else \<lfloor>x\<rfloor> + 1)"

text \<open>Rounding to a double: 53 significant bits.\<close>

definition fl :: "rat \<Rightarrow> rat" where
  "fl x =
     (if x = 0 then 0
      else sgn x * of_int (round_half_even (\<bar>x\<bar> / 2 powi (ilog2 \<bar>x\<bar> - 52)))
             * 2 powi (ilog2 \<bar>x\<bar> - 52))"

text \<open>
  \<open>x.toFixed(6)\<close> takes the integer \<open>n\<close> for which \<open>n / 10^6 - x\<close> is closest to
  zero, the larger one of two, on the exact value of the double, and writes \<open>n / 10^6\<close>
  with six decimals; \<open>Number\<close> reads that numeral back as the nearest double.
\<close>

definition toFixed6_digits :: "rat \<Rightarrow> int" where
  "toFixed6_digits x = \<lfloor>\<bar>x\<bar> * 1000000 + 1 / 2\<rfloor>"

definition Number_toFixed6 :: "rat \<Rightarrow> rat" where
  "Number_toFixed6 x = sgn x * fl (of_int (toFixed6_digits x) / 1000000)"

text \<open>
  \<open>usage.prompt_tokens ?? usage.input_tokens ?? 0\<close> and its sibling, on
  \<open>completion.usage || {}\<close>.
\<close>

definition promptTokens_of :: "usage option \<Rightarrow> nat" where
  "promptTokens_of u =
     (case u of
        None \<Rightarrow> 0
      | Some v \<Rightarrow> (case prompt_tokens v of
                    Some n \<Rightarrow> n
                  | None \<Rightarrow> (case input_tokens v of Some n \<Rightarrow> n | None \<Rightarrow> 0)))"

definition completionTokens_of :: "usage option \<Rightarrow> nat" where
  "completionTokens_of u =
     (case u of
        None \<Rightarrow> 0
      | Some v \<Rightarrow> (case completion_tokens v of
                    Some n \<Rightarrow> n
                  | None \<Rightarrow> (case output_tokens v of Some n \<Rightarrow> n | None \<Rightarrow> 0)))"

definition INPUT_PRICE_PER_M :: rat where
  "INPUT_PRICE_PER_M = 1 / 4"

definition OUTPUT_PRICE_PER_M :: rat where
  "OUTPUT_PRICE_PER_M = 2"

definition costUsd :: "nat \<Rightarrow> nat \<Rightarrow> rat" where
  "costUsd p c =
     fl (fl (fl (of_nat p * INPUT_PRICE_PER_M) + fl (of_nat c * OUTPUT_PRICE_PER_M)) / 1000000)"

definition usage_report :: "usage option \<Rightarrow> usage_out" where
  "usage_report u =
     \<lparr>promptTokens = promptTokens_of u,
      completionTokens = completionTokens_of u,
      totalTokens = fl (of_nat (promptTokens_of u) + of_nat (completionTokens_of u)),
      estimatedCostUsd = Number_toFixed6 (costUsd (promptTokens_of u) (completionTokens_of u))\<rparr>"

section \<open>POST /api/generate-quiz\<close>

definition difficultyDescription :: "jsv \<Rightarrow> string" where
  "difficultyDescription d =
     (if d = JStr ''beginner'' then
        ''Focus on fundamentals, clear definitions, and simple scenarios.''
      else if d = JStr ''intermediate'' then
        ''Focus on applied scenarios, comparisons between services, and realistic use-cases.''
      else ''Focus on deeper scenarios, trade-offs, and multi-step reasoning similar to harder exam questions. Avoid obscure trivia.'')"

text \<open>
  The template literal of the quiz prompt: \<open>${requestCount}\<close>, \<open>${safeTopic}\<close>,
  \<open>${safeDifficulty.toUpperCase()}\<close>, \<open>${difficultyDescription}\<close>. Only a string has
  \<open>toUpperCase\<close>.
\<close>

definition quiz_prompt :: "int \<Rightarrow> jsv \<Rightarrow> jsv \<Rightarrow> js_error + prompt" where
  "quiz_prompt rc t d =
     (case ToString t of
        Inl e \<Rightarrow> Inl e
      | Inr ts \<Rightarrow>
          (case d of
             JStr ds \<Rightarrow> Inr (QuizPrompt (show_int rc) ts (toUpperCase ds) (difficultyDescription d))
           | _ \<Rightarrow> Inl TypeError))"

definition call_failed :: "env \<Rightarrow> failure \<Rightarrow> response" where
  "call_failed E f =
     \<lparr>res_status = 500,
      res_body = ErrorBody ''Failed to call OpenAI API.''
                   (Some (buildErrorDebugInfo (OPENAI_API_KEY E) (Some f)))\<rparr>"

definition invalid_json :: response where
  "invalid_json =
     \<lparr>res_status = 500,
      res_body = ErrorBody ''Failed to parse questions from AI (invalid JSON).''
        (Some ''The model did not return valid JSON. Check the prompt or inspect server logs to see the raw output.'')\<rparr>"

definition no_valid_questions :: response where
  "no_valid_questions =
     \<lparr>res_status = 500,
      res_body = ErrorBody ''No valid questions generated from AI.''
        (Some ''The AI response did not contain properly formatted questions. Try again or adjust the prompt.'')\<rparr>"

text \<open>\<open>const raw = completion.choices[0]?.message?.content?.trim() || "[]"\<close>.\<close>

definition raw_of :: "completion \<Rightarrow> string" where
  "raw_of c = (case content_trimmed c of None \<Rightarrow> ''[]'' | Some s \<Rightarrow> s)"

text \<open>
  What the handler does once the model call has returned a completion; \<open>t\<close> and
  \<open>d\<close> are the sanitized topic and difficulty.
\<close>

definition quiz_after_call :: "env \<Rightarrow> jsv \<Rightarrow> jsv \<Rightarrow> completion \<Rightarrow> response" where
  "quiz_after_call E t d c =
     (case JSON_parse E (raw_of c) of
        None \<Rightarrow> invalid_json
      | Some questions \<Rightarrow>
          (case cleaned questions of
             Inl e \<Rightarrow> internal_error E e
           | Inr cs \<Rightarrow>
               if cs = [] then no_valid_questions
               else \<lparr>res_status = 200,
                     res_body = QuizBody t d cs (usage_report (usage_of c))\<rparr>))"

text \<open>
  The handler, on \<open>req.body\<close>. It returns the response and the prompts passed to the
  model, in order. Destructuring \<open>undefined\<close> or \<open>null\<close> throws; every throw inside
  the outer \<open>try\<close> reaches the catch-all.
\<close>

definition generate_quiz :: "env \<Rightarrow> jsv \<Rightarrow> response \<times> prompt list" where
  "generate_quiz E b =
     (if b = JUndefined \<or> b = JNull then (internal_error E TypeError, [])
      else
     (case numQuestions (get b ''count'') of
        Inl e \<Rightarrow> (internal_error E e, [])
      | Inr n \<Rightarrow>
     (case safeTopic (get b ''topic'') of
        Inl e \<Rightarrow> (internal_error E e, [])
      | Inr t \<Rightarrow>
     (case safeDifficulty (get b ''difficulty'') of
        Inl e \<Rightarrow> (internal_error E e, [])
      | Inr d \<Rightarrow>
     (case quiz_prompt (requestCount n) t d of
        Inl e \<Rightarrow> (internal_error E e, [])
      | Inr p \<Rightarrow>
     (case create E p of
        Inl f \<Rightarrow> (call_failed E f, [p])
      | Inr c \<Rightarrow> (quiz_after_call E t d c, [p])))))))"

section \<open>POST /api/explain\<close>

definition no_text :: response where
  "no_text = \<lparr>res_status = 400, res_body = ErrorBody ''No text provided to explain.'' None\<rparr>"

definition explain_call_failed :: "env \<Rightarrow> failure \<Rightarrow> response" where
  "explain_call_failed E f =
     \<lparr>res_status = 500,
      res_body = ErrorBody ''Failed to call OpenAI API for explanation.''
                   (Some (buildErrorDebugInfo (OPENAI_API_KEY E) (Some f)))\<rparr>"

definition level_of :: "string \<Rightarrow> string" where
  "level_of difficultyLabel =
     (if difficultyLabel = ''expert'' then
        ''advanced (assume some prior Azure knowledge, focus on depth)''
      else if difficultyLabel = ''intermediate'' then
        ''intermediate (mix of plain language and technical detail)''
      else ''beginner (plain language, minimal jargon)'')"

text \<open>
  The handler after the guard has passed on the string \<open>s\<close>: topic, \<open>safeText\<close>,
  \<open>(difficulty || 'beginner').toLowerCase()\<close>, the prompt with \<open>${safeTopic}\<close>,
  \<open>${level}\<close> and \<open>${safeText}\<close>, the call, the response.
\<close>

definition explain_text :: "env \<Rightarrow> jsv \<Rightarrow> string \<Rightarrow> response \<times> prompt list" where
  "explain_text E b s =
     (case safeTopic (get b ''topic'') of
        Inl e \<Rightarrow> (internal_error E e, [])
      | Inr t \<Rightarrow>
     (case (if truthy (get b ''difficulty'') then get b ''difficulty'' else JStr ''beginner'') of
        JStr l \<Rightarrow>
          (case ToString t of
             Inl e \<Rightarrow> (internal_error E e, [])
           | Inr ts \<Rightarrow>
               (let p = ExplainPrompt ts (level_of (toLowerCase l)) (take 500 s)
                in case create E p of
                     Inl f \<Rightarrow> (explain_call_failed E f, [p])
                   | Inr c \<Rightarrow>
                       (\<lparr>res_status = 200,
                         res_body = ExplainBody t
                           (case content_trimmed c of
                              None \<Rightarrow> ''Sorry, I could not generate an explanation.''
                            | Some x \<Rightarrow> x)\<rparr>, [p])))
      | _ \<Rightarrow> (internal_error E TypeError, [])))"

text \<open>
  The handler, on \<open>req.body\<close>, with the guard \<open>!text || !text.trim()\<close>: only a
  string has \<open>trim\<close>, so a truthy text of another kind throws.
\<close>

definition explain :: "env \<Rightarrow> jsv \<Rightarrow> response \<times> prompt list" where
  "explain E body =
     (let b = (if truthy body then body else JObj [])
      in if \<not> truthy (get b ''text'') then (no_text, [])
         else (case get b ''text'' of
                 JStr s \<Rightarrow> if trim s = [] then (no_text, []) else explain_text E b s
               | _ \<Rightarrow> (internal_error E TypeError, [])))"

section \<open>Predicates and sample data used in the statements\<close>

text \<open>The conditions of the classifier, in the order it tests them.\<close>

definition configured :: "string option \<Rightarrow> bool" where
  "configured key \<longleftrightarrow> key \<noteq> None \<and> key \<noteq> Some []"

definition has_status :: "failure \<Rightarrow> bool" where
  "has_status e \<longleftrightarrow> err_status e \<noteq> None \<and> err_status e \<noteq> Some 0"

definition has_network_code :: "failure \<Rightarrow> bool" where
  "has_network_code e \<longleftrightarrow> err_code e \<noteq> None \<and> the (err_code e) \<in> set network_codes"

definition has_message :: "failure \<Rightarrow> bool" where
  "has_message e \<longleftrightarrow> err_message e \<noteq> None \<and> err_message e \<noteq> Some []"

definition status_message :: "int \<Rightarrow> string" where
  "status_message s =
     ''OpenAI API error (status '' @ show_int s @ '').'' @
     (if s = 401 then '' Authentication failed. Check your API key.''
      else if s = 429 then '' Rate limit or quota exceeded.''
      else if s \<ge> 500 then '' OpenAI server side error, try again.''
      else '' Check server logs for more details.'')"

text \<open>
  An environment for concrete runs: a credential is set, the parser knows the text
  \<open>[]\<close> and rejects everything else, and the model answers every prompt with the given
  content and no usage record.
\<close>

definition sample_env :: "string \<Rightarrow> env" where
  "sample_env content =
     \<lparr>OPENAI_API_KEY = Some ''sk-test'',
      JSON_parse = (\<lambda>s. if s = ''[]'' then Some (JArr []) else None),
      create = (\<lambda>p. Inr \<lparr>choices = [Some content], usage_of = None\<rparr>),
      TypeError_message = ''not a function''\<rparr>"

definition sample_prompt :: prompt where
  "sample_prompt = QuizPrompt ''8'' ''AZ-900 (Microsoft Azure Fundamentals)'' ''BEGINNER''
     ''Focus on fundamentals, clear definitions, and simple scenarios.''"

definition sample_failure :: "int option \<Rightarrow> string option \<Rightarrow> failure" where
  "sample_failure s c = \<lparr>err_status = s, err_code = c, err_message = Some ''socket hang up''\<rparr>"

text \<open>
  The topic as the specification words it: trimmed, replaced by the fallback when empty,
  truncated to 80 characters.
\<close>

definition topic_as_specified :: "string \<Rightarrow> string" where
  "topic_as_specified s = take 80 (if trim s = [] then default_topic else trim s)"

definition sample_request :: "jsv \<Rightarrow> quiz_request" where
  "sample_request d = \<lparr>topic = JStr ''Azure'', count = JNum ''5'', difficulty = d\<rparr>"

text \<open>
  The filter as the amended claim words it: a truthy question and an options array of
  exactly 4 elements.
\<close>

definition well_formed :: "jsv \<Rightarrow> bool" where
  "well_formed q \<longleftrightarrow>
     truthy (get q ''question'') \<and>
     (case get q ''options'' of JArr os \<Rightarrow> length os = 4 | _ \<Rightarrow> False)"

text \<open>
  Values whose conversion to text returns: a scalar or an object without an own
  property \<open>toString\<close>, or an array of such values.
\<close>

fun plain :: "jsv \<Rightarrow> bool" where
  "plain (JArr xs) = False"
| "plain (JObj kvs) = (''toString'' \<notin> fst ` set kvs)"
| "plain (JNative n) = False"
| "plain _ = True"

definition convertible :: "jsv \<Rightarrow> bool" where
  "convertible v \<longleftrightarrow> plain v \<or> (case v of JArr xs \<Rightarrow> list_all plain xs | _ \<Rightarrow> False)"

text \<open>
  The question, every option and a truthy explanation of an element are convertible.
\<close>

definition texts_convertible :: "jsv \<Rightarrow> bool" where
  "texts_convertible q \<longleftrightarrow>
     convertible (get q ''question'') \<and>
     (case get q ''options'' of JArr os \<Rightarrow> list_all convertible os | _ \<Rightarrow> True) \<and>
     (truthy (get q ''explanation'') \<longrightarrow> convertible (get q ''explanation''))"

definition letters :: "jsv list" where
  "letters = [JStr ''A'', JStr ''B'', JStr ''C'', JStr ''D'']"

text \<open>
  The question \<open>c\<close> is the normalization of the element \<open>s\<close> at position \<open>i\<close>
  (counted from 0) of the surviving list: the id is kept when truthy and is \<open>q\<close>
  followed by \<open>i + 1\<close> otherwise; question and options are the texts of the
  element's; there are four options; the correct option is the element's when that is
  one of the four letters and \<open>A\<close> otherwise; the explanation is the text of the
  element's when truthy and empty otherwise.
\<close>

definition normalized :: "nat \<Rightarrow> jsv \<Rightarrow> gen_question \<Rightarrow> bool" where
  "normalized i s c \<longleftrightarrow>
     q_id c = (if truthy (get s ''id'') then get s ''id'' else JStr (''q'' @ show_nat (i + 1))) \<and>
     ToString (get s ''question'') = Inr (q_question c) \<and>
     (case get s ''options'' of JArr os \<Rightarrow> map_String os | _ \<Rightarrow> Inl TypeError)
       = Inr (q_options c) \<and>
     length (q_options c) = 4 \<and>
     JStr (q_correctOption c) =
       (if get s ''correctOption'' \<in> set letters then get s ''correctOption'' else JStr ''A'') \<and>
     Inr (q_explanation c) =
       (if truthy (get s ''explanation'') then ToString (get s ''explanation'') else Inr [])"

text \<open>
  A well-formed question object with further properties, an object with the given
  question and four options, and a mixed response.
\<close>

definition sample_question :: "(string \<times> jsv) list \<Rightarrow> jsv" where
  "sample_question extra =
     JObj ([(''question'', JStr ''Q''),
            (''options'', JArr [JStr ''a'', JStr ''b'', JStr ''c'', JStr ''d''])] @ extra)"

definition question_of :: "jsv \<Rightarrow> jsv" where
  "question_of v =
     JObj [(''question'', v), (''options'', JArr [JStr ''a'', JStr ''b'', JStr ''c'', JStr ''d''])]"

definition sample_response :: "jsv list" where
  "sample_response =
     [JNum ''3'',
      sample_question [],
      JObj [(''question'', JStr ''R'')],
      question_of (JStr []),
      JObj [(''options'', JArr [JStr ''a'', JStr ''b'', JStr ''c'', JStr ''d''])],
      sample_question [(''id'', JStr ''x9''), (''correctOption'', JStr ''C''),
                       (''explanation'', JNum ''7'')],
      JObj [(''question'', JStr ''S''), (''options'', JArr [JStr ''a'', JStr ''b'', JStr ''c''])],
      JObj [(''question'', JNum ''42''),
            (''options'', JArr [JNull, JBool True, JNum ''1'', JArr []]),
            (''id'', JNum ''0''), (''correctOption'', JStr ''E'')]]"

text \<open>
  The cost as the specification words it, in exact arithmetic, at 0.25 and 2.00 dollars
  per million tokens, and what it is for \<open>n / 10^6\<close> to be a value rounded to 6
  decimal places: no multiple of \<open>10^-6\<close> is nearer.
\<close>

definition exact_cost :: "nat \<Rightarrow> nat \<Rightarrow> rat" where
  "exact_cost p c = (of_nat p * (25 / 100) + of_nat c * 2) / 1000000"

definition rounds_to_6 :: "rat \<Rightarrow> int \<Rightarrow> bool" where
  "rounds_to_6 x n \<longleftrightarrow> \<bar>of_int n / 1000000 - x\<bar> \<le> 1 / 2000000"

text \<open>The first of the aliases of a token count that is present, and 0 when none is.\<close>

fun first_present :: "nat option list \<Rightarrow> nat" where
  "first_present [] = 0"
| "first_present (Some n # xs) = n"
| "first_present (None # xs) = first_present xs"

text \<open>
  A usage record that names its counts by the second alias each, one with very large
  counts, and an environment in which the model's answer parses to the given value.
\<close>

definition sample_usage :: usage where
  "sample_usage = \<lparr>prompt_tokens = None, input_tokens = Some 1000,
                    completion_tokens = None, output_tokens = Some 500\<rparr>"

definition large_usage :: usage where
  "large_usage = \<lparr>prompt_tokens = Some 4, input_tokens = None,
                   completion_tokens = Some 4503599627370496, output_tokens = None\<rparr>"

definition answering_env :: "jsv \<Rightarrow> usage option \<Rightarrow> env" where
  "answering_env questions u =
     \<lparr>OPENAI_API_KEY = Some ''sk-test'',
      JSON_parse = (\<lambda>s. Some questions),
      create = (\<lambda>p. Inr \<lparr>choices = [Some ''[...]''], usage_of = u\<rparr>),
      TypeError_message = ''not a function''\<rparr>"

section \<open>Properties\<close>

declare show_nat.simps [simp del]

subsection \<open>Error classifier\<close>

lemma classify_missing:
  "\<not> configured key \<Longrightarrow> buildErrorDebugInfo key err = missing_key_message"
  unfolding buildErrorDebugInfo_def configured_def Let_def
  by (simp only: if_True de_Morgan_conj not_not)

lemma classify_status:
  "configured key \<Longrightarrow> has_status e \<Longrightarrow>
   buildErrorDebugInfo key (Some e) = status_message (the (err_status e))"
  unfolding buildErrorDebugInfo_def configured_def has_status_def status_message_def Let_def
  by (auto simp del: append_assoc)

lemma empty_not_network: "[] \<notin> set network_codes"
  unfolding network_codes_def by simp

lemma classify_network:
  "configured key \<Longrightarrow> \<not> has_status e \<Longrightarrow> has_network_code e \<Longrightarrow>
   buildErrorDebugInfo key (Some e) =
     ''Network error ('' @ the (err_code e)
       @ '') while contacting OpenAI. Check your internet connection or firewall.''"
  using empty_not_network
  unfolding buildErrorDebugInfo_def configured_def has_status_def has_network_code_def Let_def
  by (cases "err_code e") (auto simp del: append_assoc)

lemma classify_message:
  "configured key \<Longrightarrow> \<not> has_status e \<Longrightarrow> \<not> has_network_code e \<Longrightarrow> has_message e \<Longrightarrow>
   buildErrorDebugInfo key (Some e) = ''Unexpected error: '' @ the (err_message e)"
  unfolding buildErrorDebugInfo_def configured_def has_status_def has_network_code_def
    has_message_def Let_def
  by (cases "err_code e") (auto simp del: append_assoc)

lemma classify_unknown:
  "configured key \<Longrightarrow> \<not> has_status e \<Longrightarrow> \<not> has_network_code e \<Longrightarrow> \<not> has_message e \<Longrightarrow>
   buildErrorDebugInfo key (Some e) = ''Unknown error occurred while calling OpenAI.''"
  unfolding buildErrorDebugInfo_def configured_def has_status_def has_network_code_def
    has_message_def Let_def
  by (cases "err_code e") (auto simp del: append_assoc)

text \<open>
  Claim C4. For every failure object the classifier answers in a fixed precedence:
  without a configured credential it returns the fixed configuration message, whatever
  the failure carries; else, for a failure with a status, the message of that status
  (401: authentication, 429: rate limit or quota, 500 and above: upstream server error,
  any other: check the logs), which includes the status; else, for a failure with one of
  the four network codes, the connectivity message naming the code; else, for a failure
  with a message, \<open>Unexpected error:\<close> and the message; else the fixed unknown-error
  message.
\<close>

theorem classifier_precedence:
  "(\<not> configured key \<longrightarrow> buildErrorDebugInfo key (Some e) = missing_key_message) \<and>
   (configured key \<and> has_status e \<longrightarrow>
      buildErrorDebugInfo key (Some e) = status_message (the (err_status e))) \<and>
   (configured key \<and> \<not> has_status e \<and> has_network_code e \<longrightarrow>
      buildErrorDebugInfo key (Some e) =
        ''Network error ('' @ the (err_code e)
          @ '') while contacting OpenAI. Check your internet connection or firewall.'') \<and>
   (configured key \<and> \<not> has_status e \<and> \<not> has_network_code e \<and> has_message e \<longrightarrow>
      buildErrorDebugInfo key (Some e) = ''Unexpected error: '' @ the (err_message e)) \<and>
   (configured key \<and> \<not> has_status e \<and> \<not> has_network_code e \<and> \<not> has_message e \<longrightarrow>
      buildErrorDebugInfo key (Some e) = ''Unknown error occurred while calling OpenAI.'')"
  using classify_missing classify_status classify_network classify_message classify_unknown
  by blast

lemma show_401: "show_int 401 = ''401''" by code_simp
lemma show_429: "show_int 429 = ''429''" by code_simp
lemma show_503: "show_int 503 = ''503''" by code_simp
lemma show_404: "show_int 404 = ''404''" by code_simp

theorem classifier_precedence_witness:
  "buildErrorDebugInfo None (Some (sample_failure (Some 401) (Some ''ECONNRESET''))) =
     ''Missing OPENAI_API_KEY in .env. Set it and restart the server.'' \<and>
   buildErrorDebugInfo (Some ''sk'') (Some (sample_failure (Some 401) (Some ''ECONNRESET''))) =
     ''OpenAI API error (status 401). Authentication failed. Check your API key.'' \<and>
   buildErrorDebugInfo (Some ''sk'') (Some (sample_failure (Some 429) None)) =
     ''OpenAI API error (status 429). Rate limit or quota exceeded.'' \<and>
   buildErrorDebugInfo (Some ''sk'') (Some (sample_failure (Some 503) None)) =
     ''OpenAI API error (status 503). OpenAI server side error, try again.'' \<and>
   buildErrorDebugInfo (Some ''sk'') (Some (sample_failure (Some 404) None)) =
     ''OpenAI API error (status 404). Check server logs for more details.'' \<and>
   buildErrorDebugInfo (Some ''sk'') (Some (sample_failure None (Some ''ECONNRESET''))) =
     ''Network error (ECONNRESET) while contacting OpenAI. Check your internet connection or firewall.'' \<and>
   buildErrorDebugInfo (Some ''sk'') (Some (sample_failure None (Some ''EPIPE''))) =
     ''Unexpected error: socket hang up'' \<and>
   buildErrorDebugInfo (Some ''sk'')
     (Some \<lparr>err_status = Some 0, err_code = None, err_message = Some []\<rparr>) =
     ''Unknown error occurred while calling OpenAI.''"
  using classifier_precedence [of None "sample_failure (Some 401) (Some ''ECONNRESET'')"]
    classifier_precedence [of "Some ''sk''" "sample_failure (Some 401) (Some ''ECONNRESET'')"]
    classifier_precedence [of "Some ''sk''" "sample_failure (Some 429) None"]
    classifier_precedence [of "Some ''sk''" "sample_failure (Some 503) None"]
    classifier_precedence [of "Some ''sk''" "sample_failure (Some 404) None"]
    classifier_precedence [of "Some ''sk''" "sample_failure None (Some ''ECONNRESET'')"]
    classifier_precedence [of "Some ''sk''" "sample_failure None (Some ''EPIPE'')"]
    classifier_precedence [of "Some ''sk''" "\<lparr>err_status = Some 0, err_code = None, err_message = Some []\<rparr>"]
  by (simp add: configured_def has_status_def has_network_code_def has_message_def
      status_message_def sample_failure_def missing_key_message_def network_codes_def
      show_401 show_429 show_503 show_404)

subsection \<open>The guard of /api/explain\<close>

lemma trim_blank:
  assumes "\<forall>c\<in>set s. StrWhiteSpaceChar c"
  shows "trim s = []"
proof -
  from assms have h: "dropWhile StrWhiteSpaceChar s = []" by (induction s) auto
  show ?thesis unfolding trim_def by (simp only: h rev.simps dropWhile.simps)
qed

text \<open>
  Claim C7. For every explain request whose \<open>text\<close> is the empty string or consists of
  white space only, the handler answers HTTP 400 with an error and passes no prompt to
  the model.
\<close>

theorem explain_blank_text:
  assumes "get body ''text'' = JStr s" and "\<forall>c\<in>set s. StrWhiteSpaceChar c"
  shows "explain E body =
           (\<lparr>res_status = 400, res_body = ErrorBody ''No text provided to explain.'' None\<rparr>, [])"
proof -
  have b: "truthy body" using assms(1) by (cases body) auto
  have "trim s = []" using assms(2) by (rule trim_blank)
  then show ?thesis using assms(1) b by (simp add: explain_def no_text_def)
qed

theorem explain_blank_text_witness:
  "explain (sample_env ''hello'') (JObj [(''topic'', JStr ''Azure''), (''text'', JStr ''   '')]) =
     (\<lparr>res_status = 400, res_body = ErrorBody ''No text provided to explain.'' None\<rparr>, []) \<and>
   explain (sample_env ''hello'') (JObj [(''text'', JStr [])]) =
     (\<lparr>res_status = 400, res_body = ErrorBody ''No text provided to explain.'' None\<rparr>, [])"
  using explain_blank_text [of "JObj [(''topic'', JStr ''Azure''), (''text'', JStr ''   '')]"
      "''   ''" "sample_env ''hello''"]
    explain_blank_text [of "JObj [(''text'', JStr [])]" "[]" "sample_env ''hello''"]
  by (simp add: StrWhiteSpaceChar_def)

text \<open>
  Claim C10. There is an explain request whose \<open>text\<close> is present and truthy but not
  a string, here the number 5: the guard does not answer 400, calling \<open>trim\<close> on the
  number throws, and the catch-all answers HTTP 500 with \<open>Internal server error.\<close>;
  no prompt reaches the model.
\<close>

theorem explain_number_text_is_500:
  "truthy (get (JObj [(''text'', JNum ''5'')]) ''text'') \<and>
   explain E (JObj [(''text'', JNum ''5'')]) =
     (\<lparr>res_status = 500,
       res_body = ErrorBody ''Internal server error.''
         (Some (buildErrorDebugInfo (OPENAI_API_KEY E) (Some (thrown E TypeError))))\<rparr>, [])"
  by (simp add: explain_def internal_error_def)

theorem explain_number_text_is_500_witness:
  "explain (sample_env ''hello'') (JObj [(''text'', JNum ''5'')]) =
     (\<lparr>res_status = 500,
       res_body = ErrorBody ''Internal server error.''
         (Some ''Unexpected error: not a function'')\<rparr>, [])"
  using explain_number_text_is_500 [of "sample_env ''hello''"]
  by (simp add: sample_env_def thrown_def buildErrorDebugInfo_def)

subsection \<open>Malformed model output\<close>

lemma generate_quiz_called:
  assumes "snd (generate_quiz E b) = [p]" and "create E p = Inr c"
  shows "\<exists>t d. fst (generate_quiz E b) = quiz_after_call E t d c"
  using assms unfolding generate_quiz_def
  by (auto split: if_splits sum.splits) blast

lemma quiz_after_call_invalid:
  "JSON_parse E (raw_of c) = None \<Longrightarrow> quiz_after_call E t d c = invalid_json"
  by (simp add: quiz_after_call_def)

lemma quiz_after_call_empty:
  "JSON_parse E (raw_of c) = Some qs \<Longrightarrow> cleaned qs = Inr [] \<Longrightarrow>
   quiz_after_call E t d c = no_valid_questions"
  by (simp add: quiz_after_call_def)

lemma sample_run_invalid:
  "generate_quiz (sample_env ''not json'') (JObj []) = (invalid_json, [sample_prompt])"
  by code_simp


lemma sample_run_empty:
  "generate_quiz (sample_env ''[]'') (JObj []) = (no_valid_questions, [sample_prompt])"
  by code_simp

lemma sample_raw_empty: "raw_of \<lparr>choices = [Some ''[]''], usage_of = None\<rparr> = ''[]''"
  by code_simp

lemma sample_create: "create (sample_env s) p = Inr \<lparr>choices = [Some s], usage_of = None\<rparr>"
  by (simp add: sample_env_def)

lemma sample_raw_invalid: "raw_of \<lparr>choices = [Some ''not json''], usage_of = None\<rparr> = ''not json''"
  by code_simp


lemma sample_parse: "JSON_parse (sample_env s) x = (if x = ''[]'' then Some (JArr []) else None)"
  by (simp add: sample_env_def)

text \<open>
  Claim C3. For every quiz request whose model call succeeds: if the raw model text does
  not parse as JSON, or parses and leaves an empty validated list, the handler answers
  HTTP 500, with a generic error text of its own for each of the two cases. Both
  responses are fixed texts: the raw model output is no part of them.
\<close>

theorem malformed_output_is_500:
  assumes "snd (generate_quiz E b) = [p]" and "create E p = Inr c"
  shows "(JSON_parse E (raw_of c) = None \<longrightarrow>
            fst (generate_quiz E b) =
              \<lparr>res_status = 500,
               res_body = ErrorBody ''Failed to parse questions from AI (invalid JSON).''
                 (Some ''The model did not return valid JSON. Check the prompt or inspect server logs to see the raw output.'')\<rparr>) \<and>
         (\<forall>qs. JSON_parse E (raw_of c) = Some qs \<and> cleaned qs = Inr [] \<longrightarrow>
            fst (generate_quiz E b) =
              \<lparr>res_status = 500,
               res_body = ErrorBody ''No valid questions generated from AI.''
                 (Some ''The AI response did not contain properly formatted questions. Try again or adjust the prompt.'')\<rparr>)"
proof -
  obtain t d where f: "fst (generate_quiz E b) = quiz_after_call E t d c"
    using generate_quiz_called [OF assms] by blast
  show ?thesis
    unfolding f invalid_json_def [symmetric] no_valid_questions_def [symmetric]
    using quiz_after_call_invalid quiz_after_call_empty by blast
qed

theorem malformed_output_is_500_witness:
  "fst (generate_quiz (sample_env ''not json'') (JObj [])) =
     \<lparr>res_status = 500,
      res_body = ErrorBody ''Failed to parse questions from AI (invalid JSON).''
        (Some ''The model did not return valid JSON. Check the prompt or inspect server logs to see the raw output.'')\<rparr> \<and>
   fst (generate_quiz (sample_env ''[]'') (JObj [])) =
     \<lparr>res_status = 500,
      res_body = ErrorBody ''No valid questions generated from AI.''
        (Some ''The AI response did not contain properly formatted questions. Try again or adjust the prompt.'')\<rparr>"
proof -
  have 1: "snd (generate_quiz (sample_env ''not json'') (JObj [])) = [sample_prompt]"
    by (simp add: sample_run_invalid)
  have 2: "JSON_parse (sample_env ''not json'')
             (raw_of \<lparr>choices = [Some ''not json''], usage_of = None\<rparr>) = None"
    by (simp add: sample_raw_invalid sample_parse)
  have 3: "snd (generate_quiz (sample_env ''[]'') (JObj [])) = [sample_prompt]"
    by (simp add: sample_run_empty)
  have 4: "JSON_parse (sample_env ''[]'')
             (raw_of \<lparr>choices = [Some ''[]''], usage_of = None\<rparr>) = Some (JArr [])"
    by (simp add: sample_raw_empty sample_parse)
  have 5: "cleaned (JArr []) = Inr []" by (simp add: cleaned_def)
  show ?thesis
    using malformed_output_is_500 [OF 1 sample_create] 2
      malformed_output_is_500 [OF 3 sample_create] 4 5 by blast
qed



subsection \<open>Input sanitizer\<close>

lemma numQuestions_range: "numQuestions c = Inr n \<Longrightarrow> 1 \<le> n \<and> n \<le> 15"
  unfolding numQuestions_def by (auto split: sum.splits option.splits)

lemma requestCount_range: "1 \<le> n \<Longrightarrow> n \<le> 15 \<Longrightarrow> requestCount n = n + 3"
  by (simp add: requestCount_def)

text \<open>
  Claim C2. The claim: every count outside 1..15 is clamped into 1..15 before the padding,
  and the request count is the minimum of that plus 3 and 20; count 0 gives 1 and 4,
  count 999 gives 15 and 18. The code at count 0: \<open>parseInt(0)\<close> is 0, which is falsy,
  so \<open>parseInt(count) || 5\<close> is 5; the effective count is 5 and the model is asked for
  8 questions. At count 999 the code gives 15 and 18, as claimed.
\<close>

theorem count_zero_defaults_to_five:
  "numQuestions (JNum ''0'') = Inr 5 \<and> requestCount 5 = 8 \<and>
   snd (generate_quiz (sample_env ''[]'') (JObj [(''count'', JNum ''0'')])) = [sample_prompt] \<and>
   numQuestions (JNum ''999'') = Inr 15 \<and> requestCount 15 = 18"
  by code_simp

text \<open>
  The count is read through its text: the Number \<open>1e21\<close> is read as 1, and a text
  is read up to its first character that is no digit.
\<close>

lemma count_read_as_text:
  "numQuestions (JNum ''1e+21'') = Inr 1 \<and> numQuestions (JNum ''0.5'') = Inr 5 \<and>
   numQuestions (JNum ''-3'') = Inr 1 \<and> numQuestions (JStr ''abc'') = Inr 5 \<and>
   numQuestions JUndefined = Inr 5 \<and> numQuestions (JStr ''12 questions'') = Inr 12"
  by code_simp

lemma take_default: "take 80 default_topic = default_topic"
  by (simp add: default_topic_def)

lemma safeTopic_JStr:
  "safeTopic (JStr s) = Inr (JStr (take 80 (if s = [] then default_topic else s)))"
  unfolding safeTopic_def by simp

text \<open>
  Claim C6, as stated, fails: the server does not trim the topic. The topic \<open>" x"\<close>
  stays \<open>" x"\<close>, where the claim gives \<open>"x"\<close>.
\<close>

theorem topic_not_trimmed:
  "safeTopic (JStr '' x'') = Inr (JStr '' x'') \<and> topic_as_specified '' x'' = ''x'' \<and>
   safeTopic (JStr '' x'') \<noteq> Inr (JStr (topic_as_specified '' x''))"
  by code_simp

text \<open>
  Claim C6, amended. For every topic that is a string or absent, the sanitized topic is
  the input as it is (not trimmed), replaced by the fixed fallback string when it is the
  empty string or absent, and cut to its first 80 characters; it is never empty and never
  longer than 80.
\<close>

theorem safeTopic_string_or_absent:
  "safeTopic (JStr s) = Inr (JStr (take 80 (if s = [] then default_topic else s))) \<and>
   safeTopic JUndefined = Inr (JStr default_topic) \<and>
   safeTopic JNull = Inr (JStr default_topic) \<and>
   (\<forall>r. safeTopic (JStr s) = Inr (JStr r) \<longrightarrow> r \<noteq> [] \<and> length r \<le> 80)"
proof -
  have d: "default_topic \<noteq> []" by (simp add: default_topic_def)
  have 1: "safeTopic JUndefined = Inr (JStr default_topic)"
    unfolding safeTopic_def by (simp add: take_default)
  have 2: "safeTopic JNull = Inr (JStr default_topic)"
    unfolding safeTopic_def by (simp add: take_default)
  have 3: "take 80 (if s = [] then default_topic else s) \<noteq> []" using d by simp
  show ?thesis unfolding safeTopic_JStr using 1 2 3 by simp
qed

theorem safeTopic_string_or_absent_witness:
  "safeTopic (JStr '' x'') = Inr (JStr '' x'') \<and> safeTopic (JStr []) = Inr (JStr default_topic)"
  using safeTopic_string_or_absent [of "'' x''"] safeTopic_string_or_absent [of "[]"]
  by (simp add: take_default)

text \<open>
  Claim C8. The claim: sanitizing an already sanitized quiz request yields the same
  values. The code at difficulty \<open>"constructor"\<close>: the lookup in \<open>difficultyMap\<close>
  finds the property every object inherits, so the sanitized difficulty is the built-in
  \<open>Object\<close> function, not a level; sanitizing that request again throws, since a
  function has no \<open>toLowerCase\<close>.
\<close>

theorem constructor_difficulty_not_idempotent:
  "sanitize (sample_request (JStr ''constructor'')) =
     Inr (sample_request (JNative ''constructor'')) \<and>
   sanitize (sample_request (JNative ''constructor'')) = Inl TypeError"
  by code_simp

lemma proto_difficulty: "safeDifficulty (JStr ''__PROTO__'') = Inr (JNative ''__proto__'')"
  by code_simp

text \<open>
  On every request whose sanitized difficulty is one of the three levels, sanitizing is
  idempotent.
\<close>

lemma numQuestions_fixed_each:
  "numQuestions (JNum (show_int 1)) = Inr 1 \<and>
   numQuestions (JNum (show_int 2)) = Inr 2 \<and>
   numQuestions (JNum (show_int 3)) = Inr 3 \<and>
   numQuestions (JNum (show_int 4)) = Inr 4 \<and>
   numQuestions (JNum (show_int 5)) = Inr 5 \<and>
   numQuestions (JNum (show_int 6)) = Inr 6 \<and>
   numQuestions (JNum (show_int 7)) = Inr 7 \<and>
   numQuestions (JNum (show_int 8)) = Inr 8 \<and>
   numQuestions (JNum (show_int 9)) = Inr 9 \<and>
   numQuestions (JNum (show_int 10)) = Inr 10 \<and>
   numQuestions (JNum (show_int 11)) = Inr 11 \<and>
   numQuestions (JNum (show_int 12)) = Inr 12 \<and>
   numQuestions (JNum (show_int 13)) = Inr 13 \<and>
   numQuestions (JNum (show_int 14)) = Inr 14 \<and>
   numQuestions (JNum (show_int 15)) = Inr 15"
  by code_simp

lemma numQuestions_fixed:
  assumes "1 \<le> n" and "n \<le> 15"
  shows "numQuestions (JNum (show_int n)) = Inr n"
proof -
  define counts :: "int list" where "counts = [1, 2, 3, 4, 5, 6, 7, 8, 9, 10, 11, 12, 13, 14, 15]"
  have "list_all (\<lambda>k. numQuestions (JNum (show_int k)) = Inr k) counts"
    unfolding counts_def using numQuestions_fixed_each by simp
  moreover have "n \<in> set counts" unfolding counts_def using assms by simp arith
  ultimately show ?thesis unfolding list_all_iff by blast
qed

lemma safeTopic_fixed:
  assumes "safeTopic t = Inr t'"
  shows "safeTopic t' = Inr t'"
proof (cases "truthy t")
  case False
  then have "t' = JStr default_topic" using assms by (simp add: safeTopic_def take_default)
  moreover have "default_topic \<noteq> []" by (simp add: default_topic_def)
  ultimately show ?thesis by (simp add: safeTopic_def take_default)
next
  case True
  then have s: "slice_0_80 t = Inr t'" using assms by (simp add: safeTopic_def)
  show ?thesis
  proof (cases t)
    case (JStr x)
    then have "x \<noteq> []" using True by simp
    then show ?thesis using s JStr by (auto simp: safeTopic_def)
  next
    case (JArr xs)
    then show ?thesis using s by (auto simp: safeTopic_def)
  qed (use s in auto)
qed

lemma safeDifficulty_levels:
  "safeDifficulty (JStr ''beginner'') = Inr (JStr ''beginner'') \<and>
   safeDifficulty (JStr ''intermediate'') = Inr (JStr ''intermediate'') \<and>
   safeDifficulty (JStr ''expert'') = Inr (JStr ''expert'')"
  by code_simp

lemma sanitize_idempotent_on_levels:
  assumes "sanitize r = Inr s"
    and "difficulty s = JStr ''beginner'' \<or> difficulty s = JStr ''intermediate''
         \<or> difficulty s = JStr ''expert''"
  shows "sanitize s = Inr s"
proof -
  obtain n t d where n: "numQuestions (count r) = Inr n" and t: "safeTopic (topic r) = Inr t"
    and d: "safeDifficulty (difficulty r) = Inr d"
    and s: "s = \<lparr>topic = t, count = JNum (show_int n), difficulty = d\<rparr>"
    using assms(1) unfolding sanitize_def by (auto split: sum.splits)
  have 1: "numQuestions (count s) = Inr n"
    using numQuestions_fixed numQuestions_range [OF n] s by simp
  have 2: "safeTopic (topic s) = Inr t" using safeTopic_fixed [OF t] s by simp
  have 3: "safeDifficulty (difficulty s) = Inr d"
    using safeDifficulty_levels assms(2) s by auto
  show ?thesis unfolding sanitize_def using 1 2 3 s by simp
qed

subsection \<open>Quiz response validator\<close>

lemma map_String_length: "map_String xs = Inr ss \<Longrightarrow> length ss = length xs"
  by (induction xs arbitrary: ss) (auto split: sum.splits)

lemma keep_iff:
  "keep q \<longleftrightarrow> truthy (get q ''question'') \<and> (\<exists>os. get q ''options'' = JArr os \<and> length os = 4)"
  unfolding keep_def by (cases q) (auto split: jsv.splits)

lemma keep_well_formed: "keep q \<longleftrightarrow> well_formed q"
  unfolding keep_def well_formed_def by (cases q) auto

lemma plain_ToString: "plain v \<Longrightarrow> \<exists>s. ToString v = Inr s"
  by (cases v) auto

lemma plain_ToStrings: "list_all plain vs \<Longrightarrow> \<exists>ss. ToStrings vs = Inr ss"
proof (induction vs)
  case Nil
  then show ?case by simp
next
  case (Cons v vs)
  then obtain ss where ss: "ToStrings vs = Inr ss" by auto
  obtain s where s: "ToString v = Inr s" using Cons.prems plain_ToString by auto
  show ?case using ss s by (cases v) auto
qed

lemma convertible_ToString:
  assumes "convertible v"
  shows "\<exists>s. ToString v = Inr s"
proof (cases "plain v")
  case True
  then show ?thesis by (rule plain_ToString)
next
  case False
  then obtain xs where v: "v = JArr xs" and xs: "list_all plain xs"
    using assms unfolding convertible_def by (cases v) auto
  obtain ss where "ToStrings xs = Inr ss" using plain_ToStrings [OF xs] by blast
  then show ?thesis unfolding v by simp
qed

lemma convertible_map_String: "list_all convertible vs \<Longrightarrow> \<exists>ss. map_String vs = Inr ss"
proof (induction vs)
  case Nil
  then show ?case by simp
next
  case (Cons v vs)
  then obtain ss where ss: "map_String vs = Inr ss" by auto
  obtain s where s: "ToString v = Inr s" using Cons.prems convertible_ToString by auto
  show ?case using ss s by simp
qed

lemma normalize_returns:
  assumes "well_formed q" and "texts_convertible q"
  shows "\<exists>c. normalize i q = Inr c"
proof -
  obtain os where os: "get q ''options'' = JArr os"
    using assms(1) unfolding well_formed_def by (cases "get q ''options''") auto
  obtain a where a: "ToString (get q ''question'') = Inr a"
    using assms(2) convertible_ToString unfolding texts_convertible_def by blast
  obtain b where b: "map_String os = Inr b"
    using assms(2) os convertible_map_String unfolding texts_convertible_def by fastforce
  obtain e where e: "(if truthy (get q ''explanation'') then ToString (get q ''explanation'')
                      else Inr []) = Inr e"
    using assms(2) convertible_ToString unfolding texts_convertible_def by fastforce
  show ?thesis unfolding normalize_def using os a b e by simp
qed

lemma normalize_normalized:
  assumes "normalize i q = Inr c" and "well_formed q"
  shows "normalized i q c"
proof -
  obtain os where os: "get q ''options'' = JArr os" and l: "length os = 4"
    using assms(2) unfolding well_formed_def by (cases "get q ''options''") auto
  obtain a b e where a: "ToString (get q ''question'') = Inr a" and b: "map_String os = Inr b"
    and e: "(if truthy (get q ''explanation'') then ToString (get q ''explanation'')
             else Inr []) = Inr e"
    and c: "c = \<lparr>q_id = (if truthy (get q ''id'') then get q ''id''
                          else JStr (''q'' @ show_nat (i + 1))),
                  q_question = a, q_options = b,
                  q_correctOption =
                    (if get q ''correctOption'' \<in> set [JStr ''A'', JStr ''B'', JStr ''C'', JStr ''D'']
                     then (case get q ''correctOption'' of JStr c \<Rightarrow> c | _ \<Rightarrow> ''A'')
                     else ''A''),
                  q_explanation = e\<rparr>"
    using assms(1) os unfolding normalize_def by (auto split: sum.splits)
  have lb: "length b = 4" using map_String_length [OF b] l by simp
  have co: "JStr (q_correctOption c) =
       (if get q ''correctOption'' \<in> set letters then get q ''correctOption'' else JStr ''A'')"
    unfolding c letters_def by auto
  show ?thesis unfolding normalized_def using os a b e lb co by (simp add: c)
qed

lemma map_normalize_returns:
  assumes "\<forall>q\<in>set xs. well_formed q \<and> texts_convertible q"
  shows "\<exists>cs. map_normalize k xs = Inr cs \<and> length cs = length xs \<and>
              (\<forall>i<length xs. normalized (k + i) (xs ! i) (cs ! i))"
  using assms
proof (induction xs arbitrary: k)
  case Nil
  then show ?case by simp
next
  case (Cons x xs)
  obtain c where c: "normalize k x = Inr c" using Cons.prems normalize_returns by fastforce
  have n: "normalized k x c" using normalize_normalized [OF c] Cons.prems by simp
  obtain cs where cs: "map_normalize (k + 1) xs = Inr cs" and l: "length cs = length xs"
    and a: "\<forall>i<length xs. normalized (k + 1 + i) (xs ! i) (cs ! i)"
    using Cons.IH [of "k + 1"] Cons.prems by auto
  have "\<forall>i<length (x # xs). normalized (k + i) ((x # xs) ! i) ((c # cs) ! i)"
  proof (intro allI impI)
    fix i assume "i < length (x # xs)"
    then show "normalized (k + i) ((x # xs) ! i) ((c # cs) ! i)"
      using n a by (cases i) auto
  qed
  then show ?case using c cs l by simp
qed

text \<open>
  Claim C1, amended. For every parsed model response that is an array in which the
  question, every option and a truthy explanation of each element that passes the filter
  is convertible (a scalar, an object without an own property \<open>toString\<close>, or an array
  of such values), the validator returns a list: it holds, in their original order,
  exactly the elements that have a truthy question and an options array of exactly 4
  elements, each normalized: the id is the original id where that is truthy and
  \<open>q\<close> followed by the 1-based position in the surviving list where it is falsy (the
  fallback need not differ from the id of another element); question and options are
  coerced to text; the correct option is \<open>A\<close> unless it is one of A, B, C, D; the
  explanation is its text when truthy and empty otherwise.
\<close>

theorem validator_survivors:
  assumes "\<forall>q\<in>set qs. well_formed q \<longrightarrow> texts_convertible q"
  shows "\<exists>cs. cleaned (JArr qs) = Inr cs \<and> length cs = length (filter well_formed qs) \<and>
              (\<forall>i<length cs. normalized i (filter well_formed qs ! i) (cs ! i))"
proof -
  have k: "filter keep qs = filter well_formed qs"
    by (rule filter_cong) (simp_all add: keep_well_formed)
  have "\<forall>q\<in>set (filter well_formed qs). well_formed q \<and> texts_convertible q"
    using assms by simp
  from map_normalize_returns [OF this, of 0]
  show ?thesis by (auto simp: cleaned_def k)
qed

text \<open>
  Claim C1, as stated, fails in three places. An element whose question is the empty
  array has no question text (the text of the array is empty) and survives, since the
  filter tests truthiness. The fallback id is positional, not fresh: after an element
  with the id \<open>q2\<close>, the second survivor without an id is named \<open>q2\<close> too. An id
  that is the number 0, neither absent nor empty, is replaced by the fallback.
\<close>

theorem validator_claim_fails:
  "cleaned (JArr [question_of (JArr [])]) =
     Inr [\<lparr>q_id = JStr ''q1'', q_question = [], q_options = [''a'', ''b'', ''c'', ''d''],
            q_correctOption = ''A'', q_explanation = []\<rparr>] \<and>
   cleaned (JArr [sample_question [(''id'', JStr ''q2'')], sample_question []]) =
     Inr [\<lparr>q_id = JStr ''q2'', q_question = ''Q'', q_options = [''a'', ''b'', ''c'', ''d''],
            q_correctOption = ''A'', q_explanation = []\<rparr>,
          \<lparr>q_id = JStr ''q2'', q_question = ''Q'', q_options = [''a'', ''b'', ''c'', ''d''],
            q_correctOption = ''A'', q_explanation = []\<rparr>] \<and>
   cleaned (JArr [sample_question [(''id'', JNum ''0'')]]) =
     Inr [\<lparr>q_id = JStr ''q1'', q_question = ''Q'', q_options = [''a'', ''b'', ''c'', ''d''],
            q_correctOption = ''A'', q_explanation = []\<rparr>]"
  by code_simp

text \<open>
  Outside the hypothesis of the amended claim: a well-formed element whose explanation is
  an object with an own property \<open>toString\<close> makes the validator throw.
\<close>

lemma validator_throws:
  "well_formed (sample_question [(''explanation'', JObj [(''toString'', JNum ''1'')])]) \<and>
   cleaned (JArr [sample_question [(''explanation'', JObj [(''toString'', JNum ''1'')])]])
     = Inl TypeError"
  by code_simp

lemma sample_response_convertible:
  "\<forall>q\<in>set sample_response. well_formed q \<longrightarrow> texts_convertible q"
  by code_simp

lemma sample_response_well_formed:
  "filter well_formed sample_response =
     [sample_question [],
      sample_question [(''id'', JStr ''x9''), (''correctOption'', JStr ''C''),
                       (''explanation'', JNum ''7'')],
      JObj [(''question'', JNum ''42''),
            (''options'', JArr [JNull, JBool True, JNum ''1'', JArr []]),
            (''id'', JNum ''0''), (''correctOption'', JStr ''E'')]]"
  by code_simp

lemma sample_response_cleaned:
  "cleaned (JArr sample_response) =
     Inr [\<lparr>q_id = JStr ''q1'', q_question = ''Q'', q_options = [''a'', ''b'', ''c'', ''d''],
            q_correctOption = ''A'', q_explanation = []\<rparr>,
          \<lparr>q_id = JStr ''x9'', q_question = ''Q'', q_options = [''a'', ''b'', ''c'', ''d''],
            q_correctOption = ''C'', q_explanation = ''7''\<rparr>,
          \<lparr>q_id = JStr ''q3'', q_question = ''42'', q_options = [''null'', ''true'', ''1'', []],
            q_correctOption = ''A'', q_explanation = []\<rparr>]"
  by code_simp

theorem validator_survivors_witness:
  "\<exists>cs. cleaned (JArr sample_response) = Inr cs \<and> length cs = 3 \<and>
         normalized 0 (sample_question []) (cs ! 0) \<and>
         normalized 2 (JObj [(''question'', JNum ''42''),
                             (''options'', JArr [JNull, JBool True, JNum ''1'', JArr []]),
                             (''id'', JNum ''0''), (''correctOption'', JStr ''E'')]) (cs ! 2) \<and>
         q_id (cs ! 2) = JStr ''q3''"
proof -
  obtain cs where c: "cleaned (JArr sample_response) = Inr cs"
    and l: "length cs = length (filter well_formed sample_response)"
    and n: "\<forall>i<length cs. normalized i (filter well_formed sample_response ! i) (cs ! i)"
    using validator_survivors [OF sample_response_convertible] by blast
  have l3: "length cs = 3" using l unfolding sample_response_well_formed by simp
  have n0: "normalized 0 (sample_question []) (cs ! 0)"
    using n [rule_format, of 0] l3 unfolding sample_response_well_formed by simp
  have n2: "normalized 2 (JObj [(''question'', JNum ''42''),
                             (''options'', JArr [JNull, JBool True, JNum ''1'', JArr []]),
                             (''id'', JNum ''0''), (''correctOption'', JStr ''E'')]) (cs ! 2)"
    using n [rule_format, of 2] l3 unfolding sample_response_well_formed by simp
  have "Inr cs = cleaned (JArr sample_response)" using c by simp
  then have "q_id (cs ! 2) = JStr ''q3''"
    unfolding sample_response_cleaned by auto
  then show ?thesis using c l3 n0 n2 by blast
qed

subsection \<open>Cost estimator\<close>

lemma bitlen_powi:
  assumes "0 < (a::int)"
  shows "(2::rat) powi (bitlen a - 1) \<le> of_int a" and "of_int a < (2::rat) powi (bitlen a)"
proof -
  have g: "1 \<le> bitlen a" using assms bitlen_eq_zero_iff [of a] bitlen_nonneg [of a] by linarith
  have b: "2 ^ nat (bitlen a - 1) \<le> a" "a < 2 ^ nat (bitlen a)"
    using bitlen_bounds [OF assms] by auto
  have "(of_int (2 ^ nat (bitlen a - 1)) :: rat) \<le> of_int a" using b(1) by (simp only: of_int_le_iff)
  then show "(2::rat) powi (bitlen a - 1) \<le> of_int a" using g by (simp add: power_int_def)
  have "(of_int a :: rat) < of_int (2 ^ nat (bitlen a))" using b(2) by (simp only: of_int_less_iff)
  then show "of_int a < (2::rat) powi (bitlen a)" using g by (simp add: power_int_def)
qed

lemma ilog2_bounds:
  assumes "0 < x"
  shows "2 powi (ilog2 x) \<le> x" and "x < 2 powi (ilog2 x + 1)"
proof -
  define a b where "a = fst (quotient_of x)" and "b = snd (quotient_of x)"
  have b: "0 < b" unfolding b_def by (rule quotient_of_denom_pos')
  have x: "x = of_int a / of_int b"
    using quotient_of_div [of x a b] by (simp add: a_def b_def)
  have a: "0 < a" using assms b x by (simp add: zero_less_divide_iff)
  define e where "e = bitlen a - bitlen b"
  have rb: "(0::rat) < of_int b" using b by simp
  have up: "x < 2 powi (e + 1)"
  proof -
    have "x < 2 powi (bitlen a) / of_int b"
      unfolding x using bitlen_powi(2) [OF a] rb by (simp add: divide_strict_right_mono)
    also have "\<dots> \<le> 2 powi (bitlen a) / 2 powi (bitlen b - 1)"
      using bitlen_powi(1) [OF b] rb by (intro divide_left_mono) (auto intro: mult_pos_pos)
    also have "\<dots> = 2 powi (bitlen a - (bitlen b - 1))"
      by (subst power_int_diff) auto
    finally show ?thesis unfolding e_def by (simp add: algebra_simps)
  qed
  have lo: "2 powi (e - 1) \<le> x"
  proof -
    have "2 powi (e - 1) = (2::rat) powi (bitlen a - 1 - bitlen b)"
      unfolding e_def by (simp add: algebra_simps)
    also have "\<dots> = 2 powi (bitlen a - 1) / 2 powi (bitlen b)"
      by (subst power_int_diff) auto
    also have "\<dots> \<le> of_int a / 2 powi (bitlen b)"
      using bitlen_powi(1) [OF a] by (intro divide_right_mono) auto
    also have "\<dots> \<le> of_int a / of_int b"
      using bitlen_powi(2) [OF b] rb a by (intro divide_left_mono) (auto intro: mult_pos_pos)
    finally show ?thesis unfolding x .
  qed
  have i: "ilog2 x = (if 2 powi e \<le> x then e else e - 1)"
    unfolding ilog2_def Let_def e_def a_def b_def by simp
  show "2 powi (ilog2 x) \<le> x" using lo unfolding i by auto
  show "x < 2 powi (ilog2 x + 1)" using up unfolding i by auto
qed

lemma round_half_even_error: "\<bar>of_int (round_half_even y) - y\<bar> \<le> 1 / 2"
proof -
  have f: "of_int \<lfloor>y\<rfloor> \<le> y" "y < of_int \<lfloor>y\<rfloor> + 1" by linarith+
  consider "y - of_int \<lfloor>y\<rfloor> < 1 / 2" | "1 / 2 < y - of_int \<lfloor>y\<rfloor>" | "y - of_int \<lfloor>y\<rfloor> = 1 / 2"
    by linarith
  then show ?thesis
  proof cases
    case 1
    then have "round_half_even y = \<lfloor>y\<rfloor>" by (simp add: round_half_even_def)
    then show ?thesis using f 1 by simp
  next
    case 2
    then have "round_half_even y = \<lfloor>y\<rfloor> + 1" by (simp add: round_half_even_def)
    then show ?thesis using f 2 by simp
  next
    case 3
    then have "round_half_even y = \<lfloor>y\<rfloor> \<or> round_half_even y = \<lfloor>y\<rfloor> + 1"
      by (simp add: round_half_even_def)
    then show ?thesis using f 3 by auto
  qed
qed

lemma round_half_even_of_int: "round_half_even (of_int k) = k"
  unfolding round_half_even_def by simp

lemma fl_pos:
  assumes "0 < x"
  shows "fl x = of_int (round_half_even (x / 2 powi (ilog2 x - 52))) * 2 powi (ilog2 x - 52)"
  using assms unfolding fl_def by simp

lemma fl_error:
  assumes "0 < x"
  shows "\<bar>fl x - x\<bar> \<le> x / 2 ^ 53"
proof -
  define u :: rat where "u = 2 powi (ilog2 x - 52)"
  define m where "m = round_half_even (x / u)"
  have u: "0 < u" unfolding u_def by simp
  have f: "fl x = of_int m * u" unfolding m_def u_def using fl_pos [OF assms] by simp
  have "\<bar>of_int m - x / u\<bar> \<le> 1 / 2" unfolding m_def by (rule round_half_even_error)
  then have "\<bar>of_int m - x / u\<bar> * u \<le> 1 / 2 * u" using u by (intro mult_right_mono) auto
  moreover have "\<bar>of_int m - x / u\<bar> * u = \<bar>of_int m * u - x\<bar>"
  proof -
    have "\<bar>of_int m - x / u\<bar> * u = \<bar>(of_int m - x / u) * u\<bar>" using u by (simp add: abs_mult)
    also have "(of_int m - x / u) * u = of_int m * u - x" using u by (simp add: field_simps)
    finally show ?thesis .
  qed
  ultimately have 1: "\<bar>fl x - x\<bar> \<le> u / 2" unfolding f by simp
  have "u = 2 powi (ilog2 x) / 2 powi 52" unfolding u_def by (subst power_int_diff) auto
  then have "u / 2 = 2 powi (ilog2 x) / 2 ^ 53" by simp
  also have "\<dots> \<le> x / 2 ^ 53" using ilog2_bounds(1) [OF assms] by (intro divide_right_mono) auto
  finally show ?thesis using 1 by linarith
qed

lemma fl_exact:
  assumes "0 < k" and "k < 2 ^ 53"
  shows "fl (of_int k * 2 powi j) = of_int k * 2 powi j"
proof -
  define x :: rat where "x = of_int k * 2 powi j"
  have x: "0 < x" unfolding x_def using assms(1) by (simp add: zero_less_mult_iff)
  define e where "e = ilog2 x"
  have "x < 2 ^ 53 * 2 powi j"
  proof -
    have "(of_int k :: rat) < of_int (2 ^ 53)" using assms(2) by (simp only: of_int_less_iff)
    then have "(of_int k :: rat) < 2 ^ 53" by simp
    then show ?thesis unfolding x_def by (intro mult_strict_right_mono) auto
  qed
  also have "(2::rat) ^ 53 * 2 powi j = 2 powi (53 + j)" by (subst power_int_add) auto
  finally have "(2::rat) powi e < 2 powi (53 + j)"
    using ilog2_bounds(1) [OF x] unfolding e_def by linarith
  then have "e < 53 + j"
    using power_int_increasing [of "53 + j" e "2::rat"] by (cases "e < 53 + j") auto
  then have d: "0 \<le> j - e + 52" by simp
  define u :: rat where "u = 2 powi (e - 52)"
  have u: "0 < u" unfolding u_def by simp
  have "x / u = of_int k * (2 powi j / 2 powi (e - 52))" unfolding x_def u_def by simp
  also have "2 powi j / 2 powi (e - 52) = (2::rat) powi (j - (e - 52))"
    by (subst power_int_diff) auto
  also have "\<dots> = 2 ^ nat (j - e + 52)" using d by (simp add: power_int_def algebra_simps)
  finally have xu: "x / u = of_int (k * 2 ^ nat (j - e + 52))" by simp
  have "fl x = of_int (round_half_even (x / u)) * u"
    using fl_pos [OF x] unfolding u_def e_def by simp
  also have "\<dots> = x / u * u" unfolding xu round_half_even_of_int ..
  also have "\<dots> = x" using u by simp
  finally show ?thesis unfolding x_def .
qed

lemma fl_exact_nat:
  assumes "n < 2 ^ 53"
  shows "fl (of_nat n * 2 powi j) = of_nat n * 2 powi j"
proof (cases "n = 0")
  case True
  then show ?thesis by (simp add: fl_def)
next
  case False
  have "int n < 2 ^ 53" using assms by (metis of_nat_less_iff of_nat_numeral of_nat_power)
  then show ?thesis using fl_exact [of "int n" j] False by simp
qed

lemma costUsd_exact_sum:
  assumes "p + 8 * c < 2 ^ 53"
  shows "costUsd p c = fl (of_int (int p + 8 * int c) / 4 / 1000000)"
proof -
  have p: "p < 2 ^ 53" and c: "c < 2 ^ 53" and s: "p + 8 * c < 2 ^ 53" using assms by auto
  have 1: "fl (of_nat p * INPUT_PRICE_PER_M) = of_nat p / 4"
    using fl_exact_nat [OF p, of "- 2"] by (simp add: INPUT_PRICE_PER_M_def power_int_minus)
  have 2: "fl (of_nat c * OUTPUT_PRICE_PER_M) = of_nat c * 2"
    using fl_exact_nat [OF c, of 1] by (simp add: OUTPUT_PRICE_PER_M_def)
  have eq: "(of_nat p / 4 + of_nat c * 2 :: rat) = of_nat (p + 8 * c) * 2 powi (- 2)"
    by (simp add: power_int_minus field_simps)
  have 3: "fl (of_nat p / 4 + of_nat c * 2) = of_nat (p + 8 * c) * 2 powi (- 2)"
    by (simp only: eq fl_exact_nat [OF s])
  have 4: "(of_nat (p + 8 * c) * 2 powi (- 2) :: rat) = of_int (int p + 8 * int c) / 4"
    by (simp add: power_int_minus)
  show ?thesis unfolding costUsd_def 1 2 3 4 ..
qed

lemma toFixed6_nearest:
  assumes "0 < K" and "K < 2 ^ 53"
  defines "x \<equiv> fl (of_int K / 4 / 1000000)"
  shows "0 < x" and "\<bar>of_int (toFixed6_digits x) - of_int K / 4\<bar> \<le> (1 / 2 :: rat)"
proof -
  define q :: rat where "q = of_int K / 4"
  have q: "0 < q" unfolding q_def using assms(1) by simp
  have "(of_int K :: rat) < of_int (2 ^ 53)" using assms(2) by (simp only: of_int_less_iff)
  then have q51: "q < 2 ^ 51" unfolding q_def by simp
  have e: "\<bar>x - q / 1000000\<bar> \<le> q / 1000000 / 2 ^ 53"
    unfolding x_def q_def using fl_error [of "of_int K / 4 / 1000000"] assms(1) by simp
  define d where "d = x * 1000000 - q"
  have "\<bar>d\<bar> = \<bar>x - q / 1000000\<bar> * 1000000" unfolding d_def by (simp add: abs_if field_simps)
  also have "\<dots> \<le> q / 1000000 / 2 ^ 53 * 1000000" using e by (intro mult_right_mono) auto
  also have "\<dots> = q / 2 ^ 53" by simp
  also have "\<dots> < 2 ^ 51 / 2 ^ 53" using q51 by (intro divide_strict_right_mono) auto
  finally have d: "\<bar>d\<bar> < 1 / 4" by simp
  define a where "a = q / 1000000"
  have a: "0 < a" unfolding a_def using q by simp
  have "a / 2 ^ 53 < a / 1" using a by (intro divide_strict_left_mono) auto
  moreover have "\<bar>x - a\<bar> \<le> a / 2 ^ 53" using e unfolding a_def .
  ultimately show x: "0 < x" using a by (simp only: abs_le_iff div_by_1) linarith
  define n where "n = toFixed6_digits x"
  have n: "n = \<lfloor>q + d + 1 / 2\<rfloor>" unfolding n_def toFixed6_digits_def d_def using x by simp
  have "of_int n \<le> q + d + 1 / 2" "q + d + 1 / 2 < of_int n + 1" unfolding n by linarith+
  then have "of_int (4 * n - K) < (3::rat)" "- 3 < (of_int (4 * n - K) :: rat)"
    using d unfolding q_def by (simp_all add: abs_less_iff)
  then have "4 * n - K < 3" "- 3 < 4 * n - K"
    by (metis of_int_less_iff of_int_numeral, metis of_int_less_iff of_int_minus of_int_numeral)
  then have "4 * n - K \<le> 2" "- 2 \<le> 4 * n - K" by linarith+
  then have "(of_int (4 * n - K) :: rat) \<le> of_int 2" "(of_int (- 2) :: rat) \<le> of_int (4 * n - K)"
    by (simp_all only: of_int_le_iff)
  then have "4 * (of_int n :: rat) - of_int K \<le> 2" "- 2 \<le> 4 * (of_int n :: rat) - of_int K"
    by simp_all
  then have "(of_int n :: rat) - of_int K / 4 \<le> 1 / 2" "- ((of_int n :: rat) - of_int K / 4) \<le> 1 / 2"
    by linarith+
  then show "\<bar>of_int (toFixed6_digits x) - of_int K / 4\<bar> \<le> (1 / 2 :: rat)"
    unfolding n_def [symmetric] by (simp only: abs_le_iff)
qed

lemma promptTokens_first_present:
  "promptTokens_of (Some v) = first_present [prompt_tokens v, input_tokens v]"
  by (simp add: promptTokens_of_def split: option.splits)

lemma completionTokens_first_present:
  "completionTokens_of (Some v) = first_present [completion_tokens v, output_tokens v]"
  by (simp add: completionTokens_of_def split: option.splits)

lemma estimated_cost_nearest:
  assumes "p + 8 * c < 2 ^ 53"
  shows "\<exists>n. rounds_to_6 (exact_cost p c) n \<and>
             Number_toFixed6 (costUsd p c) = fl (of_int n / 1000000)"
proof -
  define K where "K = int p + 8 * int c"
  have s: "p + 8 * c < 2 ^ 53" using assms .
  have K53: "K < 2 ^ 53"
    unfolding K_def using s by (metis of_nat_add of_nat_mult of_nat_numeral of_nat_less_iff of_nat_power)
  have ex: "exact_cost p c = of_int K / 4 / 1000000"
    unfolding exact_cost_def K_def by (simp add: field_simps)
  have cost: "costUsd p c = fl (of_int K / 4 / 1000000)"
    unfolding K_def by (rule costUsd_exact_sum [OF s])
  show ?thesis
  proof (cases "K = 0")
    case True
    then have "Number_toFixed6 (costUsd p c) = fl (of_int 0 / 1000000)"
      unfolding cost by (simp add: fl_def Number_toFixed6_def)
    moreover have "rounds_to_6 (exact_cost p c) 0" unfolding ex rounds_to_6_def True by simp
    ultimately show ?thesis by metis
  next
    case False
    then have K: "0 < K" unfolding K_def by linarith
    define x where "x = fl (of_int K / 4 / 1000000)"
    have x: "0 < x" and n: "\<bar>of_int (toFixed6_digits x) - of_int K / 4\<bar> \<le> (1 / 2 :: rat)"
      unfolding x_def using toFixed6_nearest [OF K K53] by auto
    have "Number_toFixed6 (costUsd p c) = fl (of_int (toFixed6_digits x) / 1000000)"
      unfolding cost x_def [symmetric] Number_toFixed6_def using x by simp
    moreover have "rounds_to_6 (exact_cost p c) (toFixed6_digits x)"
    proof -
      have "\<bar>of_int (toFixed6_digits x) / 1000000 - of_int K / 4 / 1000000\<bar>
              = \<bar>of_int (toFixed6_digits x) - of_int K / 4\<bar> / (1000000 :: rat)"
        by (simp add: abs_if field_simps)
      also have "\<dots> \<le> (1 / 2) / 1000000" using n by (intro divide_right_mono) auto
      finally show ?thesis unfolding rounds_to_6_def ex by simp
    qed
    ultimately show ?thesis by metis
  qed
qed

lemma quiz_success:
  assumes "JSON_parse E (raw_of c) = Some qs" and "cleaned qs = Inr cs" and "cs \<noteq> []"
  shows "quiz_after_call E t d c =
           \<lparr>res_status = 200, res_body = QuizBody t d cs (usage_report (usage_of c))\<rparr>"
  using assms by (simp add: quiz_after_call_def)

text \<open>
  Claim C5, amended. For every usage record whose token counts satisfy
  \<open>promptTokens + 8 * completionTokens < 2^53\<close>, where the prompt tokens are the first
  present of \<open>prompt_tokens\<close> and \<open>input_tokens\<close> and the completion tokens the
  first present of \<open>completion_tokens\<close> and \<open>output_tokens\<close>, each 0 when neither is
  present: the response reports these counts, and the estimated cost is
  \<open>(promptTokens * 0.25 + completionTokens * 2.0) / 1_000_000\<close> rounded to 6 decimal
  places, that is, the double written \<open>n / 10^6\<close> for an \<open>n / 10^6\<close> that no
  multiple of \<open>10^-6\<close> is nearer to the exact cost than. An absent usage record gives
  the counts 0 and the cost 0. The computation has no failing branch: whenever the parsed
  output leaves a non-empty validated list, the handler answers 200 with the usage report.
\<close>

theorem estimated_cost_rounded:
  assumes "first_present [prompt_tokens v, input_tokens v]
             + 8 * first_present [completion_tokens v, output_tokens v] < 2 ^ 53"
  shows "promptTokens (usage_report (Some v)) = first_present [prompt_tokens v, input_tokens v] \<and>
         completionTokens (usage_report (Some v))
           = first_present [completion_tokens v, output_tokens v] \<and>
         (\<exists>n. rounds_to_6 (exact_cost (first_present [prompt_tokens v, input_tokens v])
                             (first_present [completion_tokens v, output_tokens v])) n \<and>
              estimatedCostUsd (usage_report (Some v)) = fl (of_int n / 1000000)) \<and>
         promptTokens (usage_report None) = 0 \<and> completionTokens (usage_report None) = 0 \<and>
         estimatedCostUsd (usage_report None) = 0 \<and>
         (\<forall>E t d c qs cs.
            JSON_parse E (raw_of c) = Some qs \<and> cleaned qs = Inr cs \<and> cs \<noteq> [] \<longrightarrow>
            quiz_after_call E t d c =
              \<lparr>res_status = 200, res_body = QuizBody t d cs (usage_report (usage_of c))\<rparr>)"
proof -
  have 1: "promptTokens (usage_report (Some v)) = first_present [prompt_tokens v, input_tokens v]"
    by (simp add: usage_report_def promptTokens_first_present)
  have 2: "completionTokens (usage_report (Some v))
             = first_present [completion_tokens v, output_tokens v]"
    by (simp add: usage_report_def completionTokens_first_present)
  have e: "estimatedCostUsd (usage_report (Some v)) =
             Number_toFixed6 (costUsd (first_present [prompt_tokens v, input_tokens v])
                                      (first_present [completion_tokens v, output_tokens v]))"
    by (simp add: usage_report_def promptTokens_first_present completionTokens_first_present)
  have 3: "\<exists>n. rounds_to_6 (exact_cost (first_present [prompt_tokens v, input_tokens v])
                             (first_present [completion_tokens v, output_tokens v])) n \<and>
              estimatedCostUsd (usage_report (Some v)) = fl (of_int n / 1000000)"
    unfolding e by (rule estimated_cost_nearest [OF assms])
  have z: "costUsd 0 0 = 0"
    by (simp add: costUsd_def fl_def)
  have 4: "promptTokens (usage_report None) = 0 \<and> completionTokens (usage_report None) = 0 \<and>
           estimatedCostUsd (usage_report None) = 0"
    by (simp add: usage_report_def promptTokens_of_def completionTokens_of_def z
        Number_toFixed6_def)
  show ?thesis using 1 2 3 4 quiz_success by blast
qed

lemma sample_usage_tokens:
  "first_present [prompt_tokens sample_usage, input_tokens sample_usage] = 1000 \<and>
   first_present [completion_tokens sample_usage, output_tokens sample_usage] = 500"
  by (simp add: sample_usage_def)

lemma sample_answer:
  "JSON_parse (answering_env (JArr [sample_question []]) (Some sample_usage))
     (raw_of \<lparr>choices = [Some ''[...]''], usage_of = Some sample_usage\<rparr>)
     = Some (JArr [sample_question []]) \<and>
   cleaned (JArr [sample_question []]) =
     Inr [\<lparr>q_id = JStr ''q1'', q_question = ''Q'', q_options = [''a'', ''b'', ''c'', ''d''],
            q_correctOption = ''A'', q_explanation = []\<rparr>]"
  by code_simp

theorem estimated_cost_rounded_witness:
  "promptTokens (usage_report (Some sample_usage)) = 1000 \<and>
   completionTokens (usage_report (Some sample_usage)) = 500 \<and>
   estimatedCostUsd (usage_report (Some sample_usage)) = fl (1250 / 1000000) \<and>
   quiz_after_call (answering_env (JArr [sample_question []]) (Some sample_usage))
     (JStr ''Azure'') (JStr ''beginner'')
     \<lparr>choices = [Some ''[...]''], usage_of = Some sample_usage\<rparr> =
     \<lparr>res_status = 200,
      res_body = QuizBody (JStr ''Azure'') (JStr ''beginner'')
        [\<lparr>q_id = JStr ''q1'', q_question = ''Q'', q_options = [''a'', ''b'', ''c'', ''d''],
           q_correctOption = ''A'', q_explanation = []\<rparr>]
        (usage_report (Some sample_usage))\<rparr>"
proof -
  have h: "first_present [prompt_tokens sample_usage, input_tokens sample_usage]
             + 8 * first_present [completion_tokens sample_usage, output_tokens sample_usage]
             < 2 ^ 53"
    using sample_usage_tokens by simp
  note t = estimated_cost_rounded [OF h]
  have p: "promptTokens (usage_report (Some sample_usage)) = 1000"
    and c: "completionTokens (usage_report (Some sample_usage)) = 500"
    using t sample_usage_tokens by simp_all
  obtain n where r: "rounds_to_6 (exact_cost 1000 500) n"
    and e: "estimatedCostUsd (usage_report (Some sample_usage)) = fl (of_int n / 1000000)"
    using t sample_usage_tokens by auto
  have ex: "exact_cost 1000 500 = 1250 / 1000000"
    by (simp add: exact_cost_def)
  have "\<bar>of_int n / 1000000 - (1250 / 1000000 :: rat)\<bar> \<le> 1 / 2000000"
    using r unfolding rounds_to_6_def ex .
  then have "of_int n / 1000000 - (1250 / 1000000 :: rat) \<le> 1 / 2000000"
    "- (of_int n / 1000000 - (1250 / 1000000 :: rat)) \<le> 1 / 2000000"
    by (simp_all only: abs_le_iff)
  then have "(of_int n :: rat) < of_int 1251" "(of_int 1249 :: rat) < of_int n"
    by (simp_all only: of_int_numeral)
  then have "n < 1251" "1249 < n" by (simp_all only: of_int_less_iff)
  then have "n = 1250" by linarith
  then have 3: "estimatedCostUsd (usage_report (Some sample_usage)) = fl (1250 / 1000000)"
    using e by simp
  have 4: "quiz_after_call (answering_env (JArr [sample_question []]) (Some sample_usage))
     (JStr ''Azure'') (JStr ''beginner'')
     \<lparr>choices = [Some ''[...]''], usage_of = Some sample_usage\<rparr> =
     \<lparr>res_status = 200,
      res_body = QuizBody (JStr ''Azure'') (JStr ''beginner'')
        [\<lparr>q_id = JStr ''q1'', q_question = ''Q'', q_options = [''a'', ''b'', ''c'', ''d''],
           q_correctOption = ''A'', q_explanation = []\<rparr>]
        (usage_report (usage_of \<lparr>choices = [Some ''[...]''], usage_of = Some sample_usage\<rparr>))\<rparr>"
    using t sample_answer by blast
  show ?thesis using p c 3 4 by simp
qed

lemma fl_small: "fl 1 = 1 \<and> fl 9007199254740992 = 9007199254740992"
  by code_simp

lemma fl_sum_large: "fl 9007199254740993 = 9007199254740992"
  by code_simp

lemma fl_quotient_large:
  "Number_toFixed6 (fl (9007199254740992 / 1000000)) = 4722366482869645 / 524288"
  by code_simp

lemma fl_claimed_large: "fl (9007199254740993 / 1000000) = 2361183241434823 / 262144"
  by code_simp

lemma costUsd_large: "costUsd 4 4503599627370496 = fl (9007199254740992 / 1000000)"
proof -
  have 1: "(of_nat 4 :: rat) * INPUT_PRICE_PER_M = 1" by (simp add: INPUT_PRICE_PER_M_def)
  have 2: "(of_nat 4503599627370496 :: rat) * OUTPUT_PRICE_PER_M = 9007199254740992"
    by (simp add: OUTPUT_PRICE_PER_M_def)
  have 3: "(1 :: rat) + 9007199254740992 = 9007199254740993" by simp
  show ?thesis unfolding costUsd_def 1 2 by (simp only: fl_small 3 fl_sum_large)
qed

lemma large_usage_tokens:
  "promptTokens_of (Some large_usage) = 4 \<and>
   completionTokens_of (Some large_usage) = 4503599627370496"
  by (simp add: promptTokens_of_def completionTokens_of_def large_usage_def)

lemma large_estimate:
  "estimatedCostUsd (usage_report (Some large_usage)) = 4722366482869645 / 524288"
  by (simp only: usage_report_def usage_out.simps large_usage_tokens costUsd_large
      fl_quotient_large)

lemma large_exact: "exact_cost 4 4503599627370496 = 9007199254740993 / 1000000"
  by (simp add: exact_cost_def)

text \<open>
  Claim C5, as stated, fails for very large token counts. At 4 prompt tokens and
  \<open>2^52\<close> completion tokens the exact cost has six decimals,
  \<open>9007199254.740993\<close>; the sum \<open>1 + 2^53\<close> is no double and is rounded to
  \<open>2^53\<close> before the division, and the estimate is a double other than the one written
  \<open>9007199254.740993\<close>.
\<close>

theorem estimated_cost_large_tokens:
  "promptTokens (usage_report (Some large_usage)) = 4 \<and>
   completionTokens (usage_report (Some large_usage)) = 4503599627370496 \<and>
   exact_cost 4 4503599627370496 = 9007199254740993 / 1000000 \<and>
   fl (9007199254740993 / 1000000) = 2361183241434823 / 262144 \<and>
   estimatedCostUsd (usage_report (Some large_usage)) = 4722366482869645 / 524288 \<and>
   estimatedCostUsd (usage_report (Some large_usage)) \<noteq> fl (9007199254740993 / 1000000)"
proof -
  have d: "(4722366482869645 / 524288 :: rat) \<noteq> 2361183241434823 / 262144" by simp
  have t: "promptTokens (usage_report (Some large_usage)) = 4"
    "completionTokens (usage_report (Some large_usage)) = 4503599627370496"
    by (simp_all only: usage_report_def usage_out.simps large_usage_tokens)
  show ?thesis using large_estimate large_exact d t fl_claimed_large by (simp only:) simp
qed

text \<open>No rounding of that exact cost to 6 decimal places is written as the estimate.\<close>

lemma large_tokens_no_rounding:
  "\<not> (\<exists>n. rounds_to_6 (exact_cost 4 4503599627370496) n \<and>
          estimatedCostUsd (usage_report (Some large_usage)) = fl (of_int n / 1000000))"
proof
  assume "\<exists>n. rounds_to_6 (exact_cost 4 4503599627370496) n \<and>
          estimatedCostUsd (usage_report (Some large_usage)) = fl (of_int n / 1000000)"
  then obtain n where r: "rounds_to_6 (exact_cost 4 4503599627370496) n"
    and e: "estimatedCostUsd (usage_report (Some large_usage)) = fl (of_int n / 1000000)"
    by blast
  have ex: "exact_cost 4 4503599627370496 = 9007199254740993 / 1000000"
    by (rule large_exact)
  have "\<bar>of_int n / 1000000 - (9007199254740993 / 1000000 :: rat)\<bar> \<le> 1 / 2000000"
    using r unfolding rounds_to_6_def ex .
  then have "of_int n / 1000000 - (9007199254740993 / 1000000 :: rat) \<le> 1 / 2000000"
    "- (of_int n / 1000000 - (9007199254740993 / 1000000 :: rat)) \<le> 1 / 2000000"
    by (simp_all only: abs_le_iff)
  then have "(of_int n :: rat) < of_int 9007199254740994" "(of_int 9007199254740992 :: rat) < of_int n"
    by (simp_all only: of_int_numeral)
  then have "n < 9007199254740994" "9007199254740992 < n" by (simp_all only: of_int_less_iff)
  then have "n = 9007199254740993" by linarith
  then have "estimatedCostUsd (usage_report (Some large_usage)) = fl (9007199254740993 / 1000000)"
    using e by simp
  then show False using large_estimate fl_claimed_large by simp
qed

text \<open>
  The double written \<open>0.00125\<close>, and two costs halfway between two multiples of
  \<open>10^-6\<close>: \<open>toFixed\<close> rounds the double, which is below the exact \<open>3.5 * 10^-6\<close>
  and above the exact \<open>2.5 * 10^-6\<close>.
\<close>

lemma double_0_00125: "fl (1250 / 1000000) = 5764607523034235 / 2 ^ 62"
  by code_simp

lemma tie_follows_the_double:
  "exact_cost 14 0 * 1000000 = 7 / 2 \<and>
   Number_toFixed6 (costUsd 14 0) = fl (3 / 1000000) \<and>
   exact_cost 10 0 * 1000000 = 5 / 2 \<and>
   Number_toFixed6 (costUsd 10 0) = fl (3 / 1000000)"
  by code_simp

text \<open>The token counts fall back across the aliases and default to 0.\<close>

lemma usage_aliases:
  "promptTokens_of None = 0 \<and> completionTokens_of None = 0 \<and>
   promptTokens_of (Some \<lparr>prompt_tokens = Some a, input_tokens = b,
                          completion_tokens = c, output_tokens = d\<rparr>) = a \<and>
   promptTokens_of (Some \<lparr>prompt_tokens = None, input_tokens = Some a,
                          completion_tokens = c, output_tokens = d\<rparr>) = a \<and>
   promptTokens_of (Some \<lparr>prompt_tokens = None, input_tokens = None,
                          completion_tokens = c, output_tokens = d\<rparr>) = 0 \<and>
   completionTokens_of (Some \<lparr>prompt_tokens = a', input_tokens = b,
                              completion_tokens = Some a, output_tokens = d\<rparr>) = a \<and>
   completionTokens_of (Some \<lparr>prompt_tokens = a', input_tokens = b,
                              completion_tokens = None, output_tokens = Some a\<rparr>) = a \<and>
   completionTokens_of (Some \<lparr>prompt_tokens = a', input_tokens = b,
                              completion_tokens = None, output_tokens = None\<rparr>) = 0"
  by (simp add: promptTokens_of_def completionTokens_of_def)

end
